theory Spec2Isabelle
  imports Complex_Main "HOL-Library.AList"
begin

section \<open>Data model (engine/data\_models.py, engine/events.py)\<close>

text \<open>
  Python dictionaries keep insertion order and the code iterates over them, so a
  dictionary is an association list: lookup is \<open>map_of\<close>, the store \<open>d[k] = v\<close> is
  \<open>AList.update k v d\<close> (in place when the key exists, appended otherwise).
  Values of type \<open>Any\<close> (event payloads, command parameters) are JSON values; floating
  point numbers are left out.
\<close>

datatype jval =
    JNull
  | JBool bool
  | JInt int
  | JStr string
  | JList "jval list"
  | JDict "(string \<times> jval) list"

type_synonym ('k, 'v) dict = "('k \<times> 'v) list"

definition dict_get :: "('k, 'v) dict \<Rightarrow> 'k \<Rightarrow> 'v \<Rightarrow> 'v" where
  \<comment> \<open>\<open>d.get(k, default)\<close>\<close>
  "dict_get d k dflt = (case map_of d k of None \<Rightarrow> dflt | Some v \<Rightarrow> v)"

datatype error =
    KeyError string
  | IndexError
  | ValueError string
  | TypeError
  | NotModelled

record PerceptionEvent =
  pe_event_type :: string
  pe_tick :: int
  pe_actor_id :: "string option"
  pe_target_ids :: "string list"
  pe_location_id :: "string option"
  pe_payload :: "(string, jval) dict"

record Event =
  event_type :: string
  tick :: int
  actor_id :: string
  target_ids :: "string list"
  payload :: "(string, jval) dict"

text \<open>
  The fields of an agent that the modelled operations read or write. Long-term memories,
  goals, relationships and known locations are only touched by the \<open>reason\<close> and
  \<open>reflect\<close> events, which are not modelled.
\<close>

record NPC =
  npc_id :: string
  npc_name :: string
  inventory :: "string list"
  slots :: "(string, string option) dict"
  hp :: int
  tags :: "(string, string list) dict"
  short_term_memory :: "PerceptionEvent list"
  next_available_tick :: int
  last_meal_tick :: int
  hunger_stage :: string
  attributes :: "(string, int) dict"
  skills :: "(string, string) dict"

record LocationStatic =
  ls_id :: string
  description :: string
  hex_connections :: "(string, string) dict"

record LocationState =
  loc_id :: string
  occupants :: "string list"
  items :: "string list"
  connections_state :: "(string, (string, string) dict) dict"

record ItemBlueprint =
  bp_id :: string
  bp_name :: string
  weight :: int
  damage_dice :: string
  damage_type :: string
  armour_rating :: int
  skill_tag :: string
  properties :: "string list"

record ItemInstance =
  inst_id :: string
  blueprint_id :: string
  current_location :: "string option"
  owner_id :: "string option"

section \<open>World state (engine/world\_state.py)\<close>

record WorldState =
  npcs :: "(string, NPC) dict"
  locations_static :: "(string, LocationStatic) dict"
  locations_state :: "(string, LocationState) dict"
  item_blueprints :: "(string, ItemBlueprint) dict"
  item_instances :: "(string, ItemInstance) dict"

definition get_npc :: "WorldState \<Rightarrow> string \<Rightarrow> error + NPC" where
  "get_npc w k = (case map_of (npcs w) k of None \<Rightarrow> Inl (KeyError k) | Some n \<Rightarrow> Inr n)"

definition get_location_static :: "WorldState \<Rightarrow> string \<Rightarrow> error + LocationStatic" where
  "get_location_static w k =
     (case map_of (locations_static w) k of None \<Rightarrow> Inl (KeyError k) | Some l \<Rightarrow> Inr l)"

definition get_location_state :: "WorldState \<Rightarrow> string \<Rightarrow> error + LocationState" where
  "get_location_state w k =
     (case map_of (locations_state w) k of None \<Rightarrow> Inl (KeyError k) | Some l \<Rightarrow> Inr l)"

definition get_item_instance :: "WorldState \<Rightarrow> string \<Rightarrow> error + ItemInstance" where
  "get_item_instance w k =
     (case map_of (item_instances w) k of None \<Rightarrow> Inl (KeyError k) | Some i \<Rightarrow> Inr i)"

definition get_item_blueprint :: "WorldState \<Rightarrow> string \<Rightarrow> error + ItemBlueprint" where
  "get_item_blueprint w k =
     (case map_of (item_blueprints w) k of None \<Rightarrow> Inl (KeyError k) | Some b \<Rightarrow> Inr b)"

text \<open>\<open>find_npc_location\<close>: the first location, in dictionary order, that lists the agent.\<close>

fun find_in_locations :: "(string, LocationState) dict \<Rightarrow> string \<Rightarrow> string option" where
  "find_in_locations [] a = None"
| "find_in_locations ((l, st) # rest) a =
     (if a \<in> set (occupants st) then Some l else find_in_locations rest a)"

definition find_npc_location :: "WorldState \<Rightarrow> string \<Rightarrow> string option" where
  "find_npc_location w a = find_in_locations (locations_state w) a"

definition is_dead :: "NPC \<Rightarrow> bool" where
  \<comment> \<open>\<open>"dead" in npc.tags.get("dynamic", [])\<close>\<close>
  "is_dead npc = (''dead'' \<in> set (dict_get (tags npc) ''dynamic'' []))"

subsection \<open>Hunger\<close>

definition HUNGRY_THRESHOLD :: int where "HUNGRY_THRESHOLD = 20"
definition STARVING_THRESHOLD :: int where "STARVING_THRESHOLD = 40"

definition starvation_event :: "int \<Rightarrow> NPC \<Rightarrow> Event" where
  "starvation_event current_tick npc =
     \<lparr>event_type = ''damage_applied'', tick = current_tick, actor_id = npc_id npc,
      target_ids = [npc_id npc],
      payload = [(''amount'', JInt 1), (''damage_type'', JStr ''starvation'')]\<rparr>"

text \<open>
  The loop of \<open>update_hunger\<close> over \<open>self.npcs.values()\<close>: the agents are mutated in
  place and the events are appended to the list built so far.
\<close>

fun update_hunger_loop ::
  "int \<Rightarrow> (string, NPC) dict \<Rightarrow> Event list \<Rightarrow> (string, NPC) dict \<times> Event list" where
  "update_hunger_loop current_tick [] events = ([], events)"
| "update_hunger_loop current_tick ((k, npc) # rest) events =
     (if is_dead npc then
        (case update_hunger_loop current_tick rest events of
           (rest', evs) \<Rightarrow> ((k, npc) # rest', evs))
      else
        let ticks_since = current_tick - last_meal_tick npc in
        if ticks_since \<ge> STARVING_THRESHOLD then
          (case update_hunger_loop current_tick rest
                  (events @ [starvation_event current_tick npc]) of
             (rest', evs) \<Rightarrow> ((k, npc\<lparr>hunger_stage := ''starving''\<rparr>) # rest', evs))
        else if ticks_since \<ge> HUNGRY_THRESHOLD then
          (case update_hunger_loop current_tick rest events of
             (rest', evs) \<Rightarrow> ((k, npc\<lparr>hunger_stage := ''hungry''\<rparr>) # rest', evs))
        else
          (case update_hunger_loop current_tick rest events of
             (rest', evs) \<Rightarrow> ((k, npc\<lparr>hunger_stage := ''sated''\<rparr>) # rest', evs)))"

definition update_hunger :: "WorldState \<Rightarrow> int \<Rightarrow> Event list \<times> WorldState" where
  "update_hunger w current_tick =
     (case update_hunger_loop current_tick (npcs w) [] of
        (npcs', events) \<Rightarrow> (events, w\<lparr>npcs := npcs'\<rparr>))"

text \<open>
  The hunger rule in the words of the specification, for one agent: the stage for an
  elapsed time \<open>\<Delta>\<close>, and the events the agent contributes.
\<close>

definition spec_hunger_stage :: "int \<Rightarrow> string" where
  "spec_hunger_stage \<Delta> =
     (if \<Delta> \<ge> 40 then ''starving'' else if \<Delta> \<ge> 20 then ''hungry'' else ''sated'')"

definition spec_hunger_npc :: "int \<Rightarrow> NPC \<Rightarrow> NPC" where
  "spec_hunger_npc t npc =
     (if is_dead npc then npc
      else npc\<lparr>hunger_stage := spec_hunger_stage (t - last_meal_tick npc)\<rparr>)"

definition spec_hunger_events :: "int \<Rightarrow> NPC \<Rightarrow> Event list" where
  "spec_hunger_events t npc =
     (if \<not> is_dead npc \<and> t - last_meal_tick npc \<ge> 40
      then [\<lparr>event_type = ''damage_applied'', tick = t, actor_id = npc_id npc,
             target_ids = [npc_id npc],
             payload = [(''amount'', JInt 1), (''damage_type'', JStr ''starvation'')]\<rparr>]
      else [])"

subsection \<open>Applying events\<close>

text \<open>
  \<open>apply_event\<close> mutates the world in place and may raise part-way, so the model
  returns the exception, if any, together with the world as it stands at that point.
  Python's truthiness of an optional identifier (\<open>if loc_id and ...\<close>) is false for
  \<open>None\<close> and for the empty string.
\<close>

type_synonym 's outcome = "error option \<times> 's"

definition truthy_id :: "string option \<Rightarrow> bool" where
  "truthy_id x = (case x of None \<Rightarrow> False | Some s \<Rightarrow> s \<noteq> [])"

definition set_npc :: "WorldState \<Rightarrow> string \<Rightarrow> NPC \<Rightarrow> WorldState" where
  "set_npc w k n = w\<lparr>npcs := AList.update k n (npcs w)\<rparr>"

definition set_location_state :: "WorldState \<Rightarrow> string \<Rightarrow> LocationState \<Rightarrow> WorldState" where
  "set_location_state w l st = w\<lparr>locations_state := AList.update l st (locations_state w)\<rparr>"

definition set_item_instance :: "WorldState \<Rightarrow> string \<Rightarrow> ItemInstance \<Rightarrow> WorldState" where
  "set_item_instance w i inst = w\<lparr>item_instances := AList.update i inst (item_instances w)\<rparr>"

definition empty_location :: "string \<Rightarrow> LocationState" where
  "empty_location l = \<lparr>loc_id = l, occupants = [], items = [], connections_state = []\<rparr>"

definition apply_move :: "WorldState \<Rightarrow> Event \<Rightarrow> WorldState outcome" where
  "apply_move w ev =
     (case target_ids ev of
        [] \<Rightarrow> (None, w)
      | target # _ \<Rightarrow>
          if target = [] then (None, w)
          else
            let a = actor_id ev;
                w1 = (case find_npc_location w a of
                        None \<Rightarrow> w
                      | Some cur \<Rightarrow>
                          let st = dict_get (locations_state w) cur (empty_location cur) in
                          if cur \<noteq> [] \<and> a \<in> set (occupants st)
                          then set_location_state w cur (st\<lparr>occupants := remove1 a (occupants st)\<rparr>)
                          else w);
                dst = dict_get (locations_state w1) target (empty_location target)
            in (None, set_location_state w1 target (dst\<lparr>occupants := occupants dst @ [a]\<rparr>)))"

definition mark_item :: "WorldState \<Rightarrow> string \<Rightarrow> string option \<Rightarrow> string option \<Rightarrow> WorldState" where
  \<comment> \<open>\<open>inst = self.item_instances.get(item_id)\<close>; if present, set owner and location\<close>
  "mark_item w item own loc =
     (case map_of (item_instances w) item of
        None \<Rightarrow> w
      | Some inst \<Rightarrow> set_item_instance w item (inst\<lparr>owner_id := own, current_location := loc\<rparr>))"

definition apply_grab :: "WorldState \<Rightarrow> Event \<Rightarrow> WorldState outcome" where
  "apply_grab w ev =
     (case target_ids ev of
        [] \<Rightarrow> (Some IndexError, w)
      | item # _ \<Rightarrow>
          let a = actor_id ev; loc = find_npc_location w a in
          if \<not> truthy_id loc then (None, w)
          else
            (case map_of (locations_state w) (the loc) of
               None \<Rightarrow> (Some (KeyError (the loc)), w)
             | Some st \<Rightarrow>
                 if item \<in> set (items st) then
                   let w1 = set_location_state w (the loc) (st\<lparr>items := remove1 item (items st)\<rparr>) in
                   (case map_of (npcs w1) a of
                      None \<Rightarrow> (Some (KeyError a), w1)
                    | Some npc \<Rightarrow>
                        let w2 = set_npc w1 a (npc\<lparr>inventory := inventory npc @ [item]\<rparr>)
                        in (None, mark_item w2 item (Some a) None))
                 else (None, w)))"

definition apply_drop :: "WorldState \<Rightarrow> Event \<Rightarrow> WorldState outcome" where
  "apply_drop w ev =
     (case target_ids ev of
        [] \<Rightarrow> (Some IndexError, w)
      | item # _ \<Rightarrow>
          let a = actor_id ev; loc = find_npc_location w a in
          if \<not> truthy_id loc then (None, w)
          else
            (case map_of (npcs w) a of
               None \<Rightarrow> (Some (KeyError a), w)
             | Some npc \<Rightarrow>
                 if item \<in> set (inventory npc) then
                   let w1 = set_npc w a (npc\<lparr>inventory := remove1 item (inventory npc)\<rparr>) in
                   (case map_of (locations_state w1) (the loc) of
                      None \<Rightarrow> (Some (KeyError (the loc)), w1)
                    | Some st \<Rightarrow>
                        let w2 = set_location_state w1 (the loc) (st\<lparr>items := items st @ [item]\<rparr>)
                        in (None, mark_item w2 item None loc))
                 else (None, w)))"

definition apply_eat :: "WorldState \<Rightarrow> Event \<Rightarrow> WorldState outcome" where
  "apply_eat w ev =
     (case target_ids ev of
        [] \<Rightarrow> (Some IndexError, w)
      | item # _ \<Rightarrow>
          (case map_of (npcs w) (actor_id ev) of
             None \<Rightarrow> (None, w)
           | Some npc \<Rightarrow>
               if item \<in> set (inventory npc) then
                 let w1 = set_npc w (actor_id ev)
                            (npc\<lparr>inventory := remove1 item (inventory npc),
                                 last_meal_tick := tick ev, hunger_stage := ''sated''\<rparr>)
                 in (None, w1\<lparr>item_instances := AList.delete item (item_instances w1)\<rparr>)
               else (None, w)))"

text \<open>
  Arithmetic on a payload value: Python adds and subtracts integers and booleans
  (\<open>True\<close> is 1) and raises \<open>TypeError\<close> for \<open>None\<close>, strings, lists and dictionaries.
\<close>

definition num_of_jval :: "jval \<Rightarrow> int option" where
  "num_of_jval v =
     (case v of JInt i \<Rightarrow> Some i | JBool b \<Rightarrow> Some (if b then 1 else 0) | _ \<Rightarrow> None)"

definition apply_damage_applied :: "WorldState \<Rightarrow> Event \<Rightarrow> WorldState outcome" where
  "apply_damage_applied w ev =
     (case target_ids ev of
        [] \<Rightarrow> (Some IndexError, w)
      | target # _ \<Rightarrow>
          let amount = dict_get (payload ev) ''amount'' (JInt 0) in
          (case map_of (npcs w) target of
             None \<Rightarrow> (None, w)
           | Some npc \<Rightarrow>
               (case num_of_jval amount of
                  None \<Rightarrow> (Some TypeError, w)
                | Some n \<Rightarrow> (None, set_npc w target (npc\<lparr>hp := max (hp npc - n) 0\<rparr>)))))"

definition apply_rest :: "WorldState \<Rightarrow> Event \<Rightarrow> WorldState outcome" where
  "apply_rest w ev =
     (let healed = dict_get (payload ev) ''healed'' (JInt 0) in
      case map_of (npcs w) (actor_id ev) of
        None \<Rightarrow> (None, w)
      | Some npc \<Rightarrow>
          let constitution = dict_get (attributes npc) ''constitution'' 10;
              max_hp = max 1 (constitution * 2)
          in (case num_of_jval healed of
                None \<Rightarrow> (Some TypeError, w)
              | Some n \<Rightarrow> (None, set_npc w (actor_id ev) (npc\<lparr>hp := min (hp npc + n) max_hp\<rparr>))))"

text \<open>
  A payload value used as a dictionary key: a string can be a key of \<open>npc.slots\<close>,
  \<open>None\<close>, booleans and integers are hashable but never equal to a string key, and a
  list or dictionary raises \<open>TypeError\<close> (unhashable).
\<close>

datatype key_lookup = KeyStr string | KeyOther | Unhashable

definition as_key :: "jval \<Rightarrow> key_lookup" where
  "as_key v =
     (case v of JStr s \<Rightarrow> KeyStr s | JList _ \<Rightarrow> Unhashable | JDict _ \<Rightarrow> Unhashable
      | _ \<Rightarrow> KeyOther)"

definition apply_equip :: "WorldState \<Rightarrow> Event \<Rightarrow> WorldState outcome" where
  "apply_equip w ev =
     (case target_ids ev of
        [] \<Rightarrow> (Some IndexError, w)
      | item # _ \<Rightarrow>
          let slot = dict_get (payload ev) ''slot'' JNull in
          (case map_of (npcs w) (actor_id ev) of
             None \<Rightarrow> (None, w)
           | Some npc \<Rightarrow>
               (case as_key slot of
                  Unhashable \<Rightarrow> (Some TypeError, w)
                | KeyOther \<Rightarrow> (None, w)
                | KeyStr s \<Rightarrow>
                    (case map_of (slots npc) s of
                       None \<Rightarrow> (None, w)
                     | Some current \<Rightarrow>
                         if item \<in> set (inventory npc) then
                           let inv1 = (if truthy_id current then inventory npc @ [the current]
                                       else inventory npc)
                           in (None, set_npc w (actor_id ev)
                                 (npc\<lparr>inventory := remove1 item inv1,
                                      slots := AList.update s (Some item) (slots npc)\<rparr>))
                         else (None, w)))))"

definition apply_unequip :: "WorldState \<Rightarrow> Event \<Rightarrow> WorldState outcome" where
  "apply_unequip w ev =
     (let slot = dict_get (payload ev) ''slot'' JNull in
      case map_of (npcs w) (actor_id ev) of
        None \<Rightarrow> (None, w)
      | Some npc \<Rightarrow>
          (case as_key slot of
             Unhashable \<Rightarrow> (Some TypeError, w)
           | KeyOther \<Rightarrow> (None, w)
           | KeyStr s \<Rightarrow>
               (case map_of (slots npc) s of
                  None \<Rightarrow> (None, w)
                | Some current \<Rightarrow>
                    if truthy_id current then
                      (None, set_npc w (actor_id ev)
                         (npc\<lparr>inventory := inventory npc @ [the current],
                              slots := AList.update s None (slots npc)\<rparr>))
                    else (None, w))))"

text \<open>
  \<open>npc_died\<close>. The equipped items are collected in slot order and every filled slot is
  set to \<open>None\<close>; then every collected item is appended to the location and its
  instance, if any, is re-homed there.
\<close>

definition equipped_items :: "(string, string option) dict \<Rightarrow> string list" where
  "equipped_items sl = map (\<lambda>(s, i). the i) (filter (\<lambda>(s, i). truthy_id i) sl)"

definition clear_slots :: "(string, string option) dict \<Rightarrow> (string, string option) dict" where
  "clear_slots sl = map (\<lambda>(s, i). if truthy_id i then (s, None) else (s, i)) sl"

fun drop_all :: "string \<Rightarrow> string list \<Rightarrow> WorldState \<Rightarrow> WorldState" where
  "drop_all l [] w = w"
| "drop_all l (item # rest) w =
     (let st = dict_get (locations_state w) l (empty_location l);
          w1 = set_location_state w l (st\<lparr>items := items st @ [item]\<rparr>)
      in drop_all l rest (mark_item w1 item None (Some l)))"

definition add_dead_tag :: "NPC \<Rightarrow> NPC" where
  "add_dead_tag npc =
     (if ''dead'' \<in> set (dict_get (tags npc) ''dynamic'' []) then npc
      else npc\<lparr>tags := AList.update ''dynamic'' (dict_get (tags npc) ''dynamic'' [] @ [''dead''])
                          (tags npc)\<rparr>)"

definition apply_npc_died :: "WorldState \<Rightarrow> Event \<Rightarrow> WorldState outcome" where
  "apply_npc_died w ev =
     (case map_of (npcs w) (actor_id ev) of
        None \<Rightarrow> (None, w)
      | Some npc \<Rightarrow>
          let loc = find_npc_location w (npc_id npc) in
          if truthy_id loc \<and>
             npc_id npc \<in> set (occupants (dict_get (locations_state w) (the loc)
                                              (empty_location (the loc))))
          then
            let l = the loc;
                st = dict_get (locations_state w) l (empty_location l);
                w1 = set_location_state w l (st\<lparr>occupants := remove1 (npc_id npc) (occupants st)\<rparr>);
                all_items = inventory npc @ equipped_items (slots npc);
                w2 = drop_all l all_items w1;
                npc1 = npc\<lparr>slots := clear_slots (slots npc), inventory := []\<rparr>
            in (None, set_npc w2 (actor_id ev) (add_dead_tag npc1))
          else (None, set_npc w (actor_id ev) (add_dead_tag npc)))"

text \<open>
  The dispatch of \<open>apply_event\<close>. The events \<open>give\<close>, \<open>open_connection\<close>,
  \<open>close_connection\<close>, \<open>reason\<close> and \<open>reflect\<close> are outside this model, which says
  so with \<open>NotModelled\<close> instead of guessing; any other event type matches no branch of
  the source and leaves the world as it is.
\<close>

definition apply_event :: "WorldState \<Rightarrow> Event \<Rightarrow> WorldState outcome" where
  "apply_event w ev =
     (let t = event_type ev in
      if t = ''move'' then apply_move w ev
      else if t = ''grab'' then apply_grab w ev
      else if t = ''drop'' then apply_drop w ev
      else if t = ''eat'' then apply_eat w ev
      else if t = ''damage_applied'' then apply_damage_applied w ev
      else if t = ''rest'' then apply_rest w ev
      else if t = ''equip'' then apply_equip w ev
      else if t = ''unequip'' then apply_unequip w ev
      else if t \<in> set [''give'', ''open_connection'', ''close_connection''] then (Some NotModelled, w)
      else if t = ''npc_died'' then apply_npc_died w ev
      else if t \<in> set [''reason'', ''reflect''] then (Some NotModelled, w)
      else (None, w))"

section \<open>Perception (engine/events.py, Simulator.record\_perception)\<close>

text \<open>
  \<open>make_perception_from_event\<close> passes the event's type, tick, actor, the given location
  and a copy of the payload to the constructor; \<open>target_ids\<close> is not passed and keeps
  the dataclass default, the empty list.
\<close>

definition make_perception_from_event :: "Event \<Rightarrow> string option \<Rightarrow> PerceptionEvent" where
  "make_perception_from_event origin location_id =
     \<lparr>pe_event_type = event_type origin, pe_tick = tick origin,
      pe_actor_id = Some (actor_id origin), pe_target_ids = [],
      pe_location_id = location_id, pe_payload = payload origin\<rparr>"

definition primary_location :: "WorldState \<Rightarrow> Event \<Rightarrow> string option" where
  "primary_location w ev =
     (if event_type ev = ''move'' \<or> event_type ev = ''npc_died''
      then (case target_ids ev of [] \<Rightarrow> None | l # _ \<Rightarrow> Some l)
      else find_npc_location w (actor_id ev))"

definition direct_recipients :: "WorldState \<Rightarrow> Event \<Rightarrow> string \<Rightarrow> string set" where
  \<comment> \<open>occupants of the primary location other than the actor; none if the location has no state\<close>
  "direct_recipients w ev l =
     (case get_location_state w l of
        Inl e \<Rightarrow> {}
      | Inr st \<Rightarrow> set (filter (\<lambda>n. n \<noteq> actor_id ev) (occupants st)))"

definition edge_open :: "LocationState \<Rightarrow> string \<Rightarrow> bool" where
  \<comment> \<open>\<open>connections_state.get(neighbor_id, {}).get("status", "open") == "open"\<close>\<close>
  "edge_open here nb = (dict_get (dict_get (connections_state here) nb []) ''status'' ''open'' = ''open'')"

text \<open>
  The loop over the static neighbours runs inside one \<open>try\<close>: a neighbour without a
  location state raises \<open>KeyError\<close>, which ends the loop and keeps what was added so far.
\<close>

fun noise_loop ::
  "WorldState \<Rightarrow> string \<Rightarrow> LocationState \<Rightarrow> string list \<Rightarrow> string set \<Rightarrow> string set" where
  "noise_loop w et here [] recipients = recipients"
| "noise_loop w et here (nb # rest) recipients =
     (if et = ''scream'' \<or> edge_open here nb then
        (case get_location_state w nb of
           Inl e \<Rightarrow> recipients
         | Inr st \<Rightarrow> noise_loop w et here rest (recipients \<union> set (occupants st)))
      else noise_loop w et here rest recipients)"

definition noise_recipients :: "WorldState \<Rightarrow> Event \<Rightarrow> string \<Rightarrow> string set \<Rightarrow> string set" where
  "noise_recipients w ev l recipients =
     (if event_type ev = ''scream'' \<or> event_type ev = ''talk_loud'' then
        (case get_location_static w l of
           Inl e \<Rightarrow> recipients
         | Inr ls \<Rightarrow>
             (case get_location_state w l of
                Inl e \<Rightarrow> recipients
              | Inr here \<Rightarrow>
                  noise_loop w (event_type ev) here (map snd (hex_connections ls)) recipients))
      else recipients)"

definition perception_recipients :: "WorldState \<Rightarrow> Event \<Rightarrow> string \<Rightarrow> string set" where
  "perception_recipients w ev l = noise_recipients w ev l (direct_recipients w ev l)"

fun cap_stm :: "nat \<Rightarrow> 'a list \<Rightarrow> 'a list" where
  \<comment> \<open>\<open>while len(stm) > cap: stm.pop(0)\<close>\<close>
  "cap_stm cap [] = []"
| "cap_stm cap (x # xs) = (if length (x # xs) > cap then cap_stm cap xs else x # xs)"

definition perceive :: "int \<Rightarrow> PerceptionEvent \<Rightarrow> NPC \<Rightarrow> NPC" where
  "perceive buffer_size pe npc =
     npc\<lparr>short_term_memory := cap_stm (nat (max 1 buffer_size)) (short_term_memory npc @ [pe])\<rparr>"

text \<open>
  \<open>record_perception\<close>. The recipients are a Python set, and each recipient that is a
  known agent gets the entry appended to its own buffer, so the order of the set does not
  matter; an unknown recipient is skipped. The block that reads the recipient's inherent
  tags and tests for \<open>elevated_vantage_point\<close> ends in \<open>pass\<close> and changes nothing.
\<close>

definition record_perception :: "int \<Rightarrow> WorldState \<Rightarrow> Event \<Rightarrow> WorldState" where
  "record_perception buffer_size w ev =
     (if event_type ev = ''describe_location'' \<or> event_type ev = ''wait'' then w
      else
        let location_id = primary_location w ev in
        if \<not> truthy_id location_id then w
        else
          let recipients = perception_recipients w ev (the location_id);
              pe = make_perception_from_event ev location_id
          in w\<lparr>npcs := map (\<lambda>(k, n). if k \<in> recipients then (k, perceive buffer_size pe n) else (k, n))
                            (npcs w)\<rparr>)"

section \<open>Combat rules (rpg/combat\_rules.py)\<close>

text \<open>
  Two library functions are parameters of the model: Python's \<open>int\<close> on a string
  (\<open>None\<close> where it raises \<open>ValueError\<close>) and \<open>random.randint\<close>, which reads and
  advances the state of the generator.
\<close>

type_synonym int_parser = "string \<Rightarrow> int option"
type_synonym 'g randint = "'g \<Rightarrow> int \<Rightarrow> int \<Rightarrow> int \<times> 'g"

definition ability_modifier :: "int \<Rightarrow> int" where
  "ability_modifier score = (score - 10) div 2"

definition PROFICIENCY_MAP :: "(string, int) dict" where
  "PROFICIENCY_MAP = [(''novice'', 1), (''proficient'', 2), (''expert'', 3), (''master'', 4)]"

definition proficiency_bonus :: "string \<Rightarrow> int" where
  "proficiency_bonus level = dict_get PROFICIENCY_MAP level 0"

definition py_lower :: "string \<Rightarrow> string" where
  \<comment> \<open>\<open>str.lower\<close> on ASCII letters; other bytes stay as they are\<close>
  "py_lower s =
     map (\<lambda>c. dict_get (zip ''ABCDEFGHIJKLMNOPQRSTUVWXYZ'' ''abcdefghijklmnopqrstuvwxyz'') c c) s"

fun split_on :: "char \<Rightarrow> string \<Rightarrow> string list" where
  \<comment> \<open>\<open>s.split(c)\<close> for a one-character separator\<close>
  "split_on c [] = [[]]"
| "split_on c (x # xs) =
     (if x = c then [] # split_on c xs
      else (case split_on c xs of [] \<Rightarrow> [[x]] | p # ps \<Rightarrow> (x # p) # ps))"

fun rolls :: "'g randint \<Rightarrow> nat \<Rightarrow> int \<Rightarrow> 'g \<Rightarrow> int \<times> 'g" where
  \<comment> \<open>\<open>sum(random.randint(1, die) for _ in range(num))\<close>, for \<open>die \<ge> 1\<close>\<close>
  "rolls rnd 0 die g = (0, g)"
| "rolls rnd (Suc n) die g =
     (case rnd g 1 die of (x, g1) \<Rightarrow> (case rolls rnd n die g1 of (s, g2) \<Rightarrow> (x + s, g2)))"

text \<open>
  \<open>roll_dice\<close>: the specification must split into exactly two parts at \<open>d\<close>, both
  integers; \<open>randint(1, die)\<close> raises \<open>ValueError\<close> for \<open>die < 1\<close>, at the first draw.
\<close>

definition roll_dice :: "int_parser \<Rightarrow> 'g randint \<Rightarrow> string \<Rightarrow> 'g \<Rightarrow> (error + int) \<times> 'g" where
  "roll_dice py_int rnd spec g =
     (case split_on CHR ''d'' (py_lower spec) of
        [a, b] \<Rightarrow>
          (case py_int a of
             None \<Rightarrow> (Inl (ValueError ''invalid literal for int()''), g)
           | Some num \<Rightarrow>
               (case py_int b of
                  None \<Rightarrow> (Inl (ValueError ''invalid literal for int()''), g)
                | Some die \<Rightarrow>
                    if num \<le> 0 then (Inr 0, g)
                    else if die < 1 then (Inl (ValueError ''empty range for randrange()''), g)
                    else (case rolls rnd (nat num) die g of (s, g') \<Rightarrow> (Inr s, g'))))
      | _ \<Rightarrow> (Inl (ValueError ''not enough or too many values to unpack''), g))"

definition DEFAULT_UNARMED :: ItemBlueprint where
  "DEFAULT_UNARMED =
     \<lparr>bp_id = ''unarmed'', bp_name = ''Unarmed'', weight = 0, damage_dice = ''1d4'',
      damage_type = ''bludgeoning'', armour_rating = 0, skill_tag = ''unarmed_combat'',
      properties = []\<rparr>"

definition blueprint_of :: "WorldState \<Rightarrow> string \<Rightarrow> error + ItemBlueprint" where
  \<comment> \<open>\<open>world.get_item_blueprint(world.get_item_instance(inst_id).blueprint_id)\<close>\<close>
  "blueprint_of w i =
     (case get_item_instance w i of
        Inl e \<Rightarrow> Inl e
      | Inr inst \<Rightarrow> get_item_blueprint w (blueprint_id inst))"

definition get_weapon :: "WorldState \<Rightarrow> NPC \<Rightarrow> error + ItemBlueprint" where
  "get_weapon w actor =
     (let i = dict_get (slots actor) ''main_hand'' None in
      if truthy_id i \<and> map_of (item_instances w) (the i) \<noteq> None
      then blueprint_of w (the i)
      else Inr DEFAULT_UNARMED)"

fun armour_loop :: "WorldState \<Rightarrow> string option list \<Rightarrow> int \<Rightarrow> error + int" where
  "armour_loop w [] ac = Inr ac"
| "armour_loop w (i # rest) ac =
     (if truthy_id i \<and> map_of (item_instances w) (the i) \<noteq> None then
        (case blueprint_of w (the i) of
           Inl e \<Rightarrow> Inl e
         | Inr bp \<Rightarrow> armour_loop w rest (ac + armour_rating bp))
      else armour_loop w rest ac)"

definition compute_ac :: "WorldState \<Rightarrow> NPC \<Rightarrow> error + int" where
  "compute_ac w actor =
     (case armour_loop w (map snd (slots actor)) 10 of
        Inl e \<Rightarrow> Inl e
      | Inr ac \<Rightarrow> Inr (ac + ability_modifier (dict_get (attributes actor) ''dexterity'' 10)))"

record AttackResult =
  hit :: bool
  damage :: int
  to_hit :: int
  target_ac :: int

definition attr_mod_of :: "NPC \<Rightarrow> ItemBlueprint \<Rightarrow> int" where
  "attr_mod_of attacker weapon =
     (let str_mod = ability_modifier (dict_get (attributes attacker) ''strength'' 10);
          dex_mod = ability_modifier (dict_get (attributes attacker) ''dexterity'' 10)
      in if ''finesse'' \<in> set (properties weapon) then max str_mod dex_mod else str_mod)"

definition roll_damage ::
  "int_parser \<Rightarrow> 'g randint \<Rightarrow> ItemBlueprint \<Rightarrow> bool \<Rightarrow> int \<Rightarrow> 'g \<Rightarrow> (error + int) \<times> 'g" where
  \<comment> \<open>the body of \<open>if hit:\<close> in \<open>resolve_attack\<close>\<close>
  "roll_damage py_int rnd weapon critical attr_mod g =
     (case roll_dice py_int rnd (damage_dice weapon) g of
        (Inl e, g1) \<Rightarrow> (Inl e, g1)
      | (Inr d1, g1) \<Rightarrow>
          if critical then
            (case roll_dice py_int rnd (damage_dice weapon) g1 of
               (Inl e, g2) \<Rightarrow> (Inl e, g2)
             | (Inr d2, g2) \<Rightarrow> (Inr (d1 + d2 + attr_mod), g2))
          else (Inr (d1 + attr_mod), g1))"

definition resolve_attack ::
  "int_parser \<Rightarrow> 'g randint \<Rightarrow> WorldState \<Rightarrow> NPC \<Rightarrow> NPC \<Rightarrow> 'g \<Rightarrow> (error + AttackResult) \<times> 'g" where
  "resolve_attack py_int rnd w attacker target g =
     (case get_weapon w attacker of
        Inl e \<Rightarrow> (Inl e, g)
      | Inr weapon \<Rightarrow>
          let attr_mod = attr_mod_of attacker weapon;
              prof_level = dict_get (skills attacker) (skill_tag weapon) '''';
              prof_bonus = proficiency_bonus prof_level
          in (case roll_dice py_int rnd ''1d20'' g of
                (Inl e, g1) \<Rightarrow> (Inl e, g1)
              | (Inr d20, g1) \<Rightarrow>
                  let to_hit_v = d20 + attr_mod + prof_bonus in
                  (case compute_ac w target of
                     Inl e \<Rightarrow> (Inl e, g1)
                   | Inr ac \<Rightarrow>
                       let hit_v = (to_hit_v \<ge> ac); critical = (d20 = 20) in
                       if hit_v then
                         (case roll_damage py_int rnd weapon critical attr_mod g1 of
                            (Inl e, g2) \<Rightarrow> (Inl e, g2)
                          | (Inr dmg, g2) \<Rightarrow>
                              (Inr \<lparr>hit = hit_v, damage = dmg, to_hit = to_hit_v, target_ac = ac\<rparr>, g2))
                       else
                         (Inr \<lparr>hit = hit_v, damage = 0, to_hit = to_hit_v, target_ac = ac\<rparr>, g1))))"









section \<open>Tools and commands (engine/tools/base.py, engine/tools/move.py, Simulator.process\_command)\<close>

type_synonym params = "(string, jval) dict"

text \<open>
  A tool is its name, its time cost and its two methods; a subclass is a value of this
  record. The methods of the tools shipped with the engine read the world and never write
  it, so they are functions of the world that return a result or the exception raised.
\<close>

record Tool =
  tool_name :: string
  time_cost :: int
  validate_intent :: "params \<Rightarrow> WorldState \<Rightarrow> NPC \<Rightarrow> error + bool"
  generate_events :: "params \<Rightarrow> WorldState \<Rightarrow> NPC \<Rightarrow> int \<Rightarrow> error + Event list"

definition truthy :: "jval \<Rightarrow> bool" where
  "truthy v =
     (case v of JNull \<Rightarrow> False | JBool b \<Rightarrow> b | JInt i \<Rightarrow> i \<noteq> 0 | JStr s \<Rightarrow> s \<noteq> []
      | JList l \<Rightarrow> l \<noteq> [] | JDict d \<Rightarrow> d \<noteq> [])"

definition pget :: "params \<Rightarrow> string \<Rightarrow> jval" where
  \<comment> \<open>\<open>params.get(k)\<close>: \<open>None\<close> for a missing key\<close>
  "pget p k = dict_get p k JNull"

definition por :: "jval \<Rightarrow> jval \<Rightarrow> jval" where
  \<comment> \<open>Python's \<open>a or b\<close>\<close>
  "por a b = (if truthy a then a else b)"

definition is_str :: "jval \<Rightarrow> bool" where
  "is_str v = (case v of JStr s \<Rightarrow> True | _ \<Rightarrow> False)"

subsection \<open>The move tool\<close>

definition move_validate_intent :: "params \<Rightarrow> WorldState \<Rightarrow> NPC \<Rightarrow> error + bool" where
  "move_validate_intent intent w actor =
     (let target = pget intent ''target_location'' in
      if \<not> truthy target then Inr False
      else
        (case as_key target of
           Unhashable \<Rightarrow> Inl TypeError
         | KeyOther \<Rightarrow> Inr False
         | KeyStr t \<Rightarrow>
             if map_of (locations_state w) t = None then Inr False
             else
               let current = find_npc_location w (npc_id actor) in
               if \<not> truthy_id current then Inr False
               else
                 (case get_location_state w (the current) of
                    Inl e \<Rightarrow> Inl e
                  | Inr loc_state \<Rightarrow>
                      if map_of (connections_state loc_state) t = None then Inr False
                      else Inr (edge_open loc_state t))))"

text \<open>
  \<open>generate_events\<close> of the move tool reads \<open>intent["target_location"]\<close>. The target
  list of an event holds strings; a destination of another type cannot pass
  \<open>validate_intent\<close> and is answered with \<open>TypeError\<close> here.
\<close>

definition move_generate_events :: "params \<Rightarrow> WorldState \<Rightarrow> NPC \<Rightarrow> int \<Rightarrow> error + Event list" where
  "move_generate_events intent w actor t =
     (case map_of intent ''target_location'' of
        None \<Rightarrow> Inl (KeyError ''target_location'')
      | Some (JStr dest) \<Rightarrow>
          Inr [\<lparr>event_type = ''move'', tick = t, actor_id = npc_id actor, target_ids = [dest],
                payload = [(''to_location_id'', JStr dest)]\<rparr>]
      | Some _ \<Rightarrow> Inl TypeError)"

definition MoveTool :: "int \<Rightarrow> Tool" where
  "MoveTool tc =
     \<lparr>tool_name = ''move'', time_cost = tc, validate_intent = move_validate_intent,
      generate_events = move_generate_events\<rparr>"

subsection \<open>The simulator state and process\_command\<close>

text \<open>
  The simulator fields the modelled methods use. The conversation tables, the renderer
  and the message cache of the user interface are not part of the model; the handlers
  that write only those leave the modelled state as it is.
\<close>

record 'g Simulator =
  world :: WorldState
  game_tick :: int
  event_queue :: "Event list"
  tools :: "(string, Tool) dict"
  starvation_enabled :: bool
  perception_buffer_size :: int
  rng :: 'g

text \<open>
  A command is the object \<open>{"tool": name, "params": value}\<close>; either key may be missing.
\<close>

record Command =
  cmd_tool :: "string option"
  cmd_params :: "jval option"

definition params_of :: "Command \<Rightarrow> params" where
  \<comment> \<open>\<open>command.get("params", {}) if isinstance(command.get("params"), dict) else {}\<close>\<close>
  "params_of c = (case cmd_params c of Some (JDict d) \<Rightarrow> d | _ \<Rightarrow> [])"

definition normalize_location :: "params \<Rightarrow> params" where
  "normalize_location p =
     (let loc = por (pget p ''target_location'')
                 (por (pget p ''location_id'') (por (pget p ''target'') (pget p ''to'')))
      in if is_str loc \<and> truthy loc then AList.update ''target_location'' loc p else p)"

definition normalize_attack :: "params \<Rightarrow> params" where
  "normalize_attack p =
     (if is_str (pget p ''target_id'') then p
      else if is_str (pget p ''target'') then AList.update ''target_id'' (pget p ''target'') p
      else (case pget p ''target_ids'' of
              JList (first # _) \<Rightarrow> if is_str first then AList.update ''target_id'' first p else p
            | _ \<Rightarrow> p))"

definition normalize_content :: "params \<Rightarrow> params" where
  "normalize_content p =
     AList.update ''content''
       (case pget p ''content'' of JStr s \<Rightarrow> JStr (take 200 s) | _ \<Rightarrow> JStr ''...'') p"

definition normalize_give :: "params \<Rightarrow> params" where
  "normalize_give p =
     (let recip = por (pget p ''recipient_id'') (pget p ''target_id'')
      in if is_str recip then AList.update ''target_id'' recip p else p)"

definition normalize_slot :: "params \<Rightarrow> params" where
  "normalize_slot p =
     (let slot = por (pget p ''slot'') (pget p ''equipment_slot'')
      in if is_str slot then AList.update ''slot'' slot p else p)"

definition normalize_params :: "string option \<Rightarrow> params \<Rightarrow> params" where
  "normalize_params tname p =
     (case tname of
        None \<Rightarrow> p
      | Some t \<Rightarrow>
          let p1 = (if t \<in> set [''move'', ''open'', ''close''] then normalize_location p else p);
              p2 = (if t = ''attack'' then normalize_attack p1 else p1);
              p3 = (if t \<in> set [''talk'', ''talk_loud'', ''scream''] then normalize_content p2 else p2);
              p4 = (if t = ''give'' then normalize_give p3 else p3)
          in (if t \<in> set [''equip'', ''unequip''] then normalize_slot p4 else p4))"

definition int_of_jval :: "int_parser \<Rightarrow> jval \<Rightarrow> int option" where
  \<comment> \<open>Python's \<open>int(v)\<close>; \<open>None\<close> where it raises\<close>
  "int_of_jval py_int v =
     (case v of JInt i \<Rightarrow> Some i | JBool b \<Rightarrow> Some (if b then 1 else 0) | JStr s \<Rightarrow> py_int s
      | _ \<Rightarrow> None)"

definition effective_time_cost :: "int_parser \<Rightarrow> Tool \<Rightarrow> params \<Rightarrow> int" where
  "effective_time_cost py_int tool p =
     (if tool_name tool \<in> set [''wait'', ''rest''] then
        (case int_of_jval py_int (dict_get p ''ticks'' (JInt 1)) of
           None \<Rightarrow> 1
         | Some n \<Rightarrow> max 1 n)
      else time_cost tool)"

definition InvalidIntent :: error where "InvalidIntent = ValueError ''Invalid intent''"
definition ActorBusy :: error where "ActorBusy = ValueError ''Actor is busy''"
definition UnknownTool :: "string \<Rightarrow> error" where "UnknownTool t = ValueError (''Unknown tool '' @ t)"

text \<open>
  \<open>process_command\<close> returns the exception raised, if any, and the simulator as the call
  leaves it. The tool is looked up first, the actor second (\<open>get_npc\<close> raises for an
  unknown actor), and only then is a missing tool reported; a command without the key
  \<open>tool\<close> fails on \<open>command['tool']\<close> while the message is built.
\<close>

definition process_command ::
  "int_parser \<Rightarrow> 'g Simulator \<Rightarrow> string \<Rightarrow> Command \<Rightarrow> 'g Simulator outcome" where
  "process_command py_int sim a command =
     (let tname = cmd_tool command;
          tool = (case tname of None \<Rightarrow> None | Some t \<Rightarrow> map_of (tools sim) t)
      in case get_npc (world sim) a of
           Inl e \<Rightarrow> (Some e, sim)
         | Inr actor \<Rightarrow>
             (case tool of
                None \<Rightarrow>
                  (Some (case tname of None \<Rightarrow> KeyError ''tool'' | Some t \<Rightarrow> UnknownTool t), sim)
              | Some tool_v \<Rightarrow>
                  if next_available_tick actor > game_tick sim then (Some ActorBusy, sim)
                  else
                    let p = normalize_params tname (params_of command) in
                    (case validate_intent tool_v p (world sim) actor of
                       Inl e \<Rightarrow> (Some e, sim)
                     | Inr ok \<Rightarrow>
                         if \<not> ok then (Some InvalidIntent, sim)
                         else
                           let tc = effective_time_cost py_int tool_v p in
                           (case generate_events tool_v p (world sim) actor (game_tick sim) of
                              Inl e \<Rightarrow> (Some e, sim)
                            | Inr events \<Rightarrow>
                                (None,
                                 sim\<lparr>event_queue := event_queue sim @ events,
                                     world := set_npc (world sim) a
                                                (actor\<lparr>next_available_tick := game_tick sim + tc\<rparr>)\<rparr>)))))"

section \<open>Event handling and the tick (Simulator.handle\_event, Simulator.tick)\<close>

definition handle_world_event :: "'g Simulator \<Rightarrow> Event \<Rightarrow> 'g Simulator outcome" where
  \<comment> \<open>the handlers that apply the event to the world and narrate\<close>
  "handle_world_event sim ev =
     (case apply_event (world sim) ev of (err, w1) \<Rightarrow> (err, sim\<lparr>world := w1\<rparr>))"

definition npc_died_event :: "int \<Rightarrow> NPC \<Rightarrow> string option \<Rightarrow> Event" where
  "npc_died_event t target loc =
     \<lparr>event_type = ''npc_died'', tick = t, actor_id = npc_id target,
      target_ids = (if truthy_id loc then [the loc] else []), payload = []\<rparr>"

definition handle_damage_applied :: "'g Simulator \<Rightarrow> Event \<Rightarrow> 'g Simulator outcome" where
  "handle_damage_applied sim ev =
     (case apply_event (world sim) ev of
        (Some e, w1) \<Rightarrow> (Some e, sim\<lparr>world := w1\<rparr>)
      | (None, w1) \<Rightarrow>
          let sim1 = sim\<lparr>world := w1\<rparr> in
          (case target_ids ev of
             [] \<Rightarrow> (Some IndexError, sim1)
           | t # _ \<Rightarrow>
               (case get_npc w1 t of
                  Inl e \<Rightarrow> (Some e, sim1)
                | Inr target \<Rightarrow>
                    if hp target \<le> 0 \<and> \<not> is_dead target then
                      (None, sim1\<lparr>event_queue := event_queue sim1 @
                          [npc_died_event (game_tick sim1) target
                             (find_npc_location w1 (npc_id target))]\<rparr>)
                    else (None, sim1))))"

definition attack_events :: "int \<Rightarrow> Event \<Rightarrow> AttackResult \<Rightarrow> string \<Rightarrow> Event list" where
  "attack_events t ev result dtype =
     (let base = [(''to_hit'', JInt (to_hit result)), (''target_ac'', JInt (target_ac result))] in
      if hit result then
        [\<lparr>event_type = ''attack_hit'', tick = t, actor_id = actor_id ev, target_ids = target_ids ev,
          payload = base @ [(''damage'', JInt (damage result))]\<rparr>,
         \<lparr>event_type = ''damage_applied'', tick = t, actor_id = actor_id ev,
          target_ids = target_ids ev,
          payload = [(''amount'', JInt (damage result)), (''damage_type'', JStr dtype)]\<rparr>]
      else
        [\<lparr>event_type = ''attack_missed'', tick = t, actor_id = actor_id ev,
          target_ids = target_ids ev, payload = base\<rparr>])"

definition handle_attack_attempt ::
  "int_parser \<Rightarrow> 'g randint \<Rightarrow> 'g Simulator \<Rightarrow> Event \<Rightarrow> 'g Simulator outcome" where
  "handle_attack_attempt py_int rnd sim ev =
     (case get_npc (world sim) (actor_id ev) of
        Inl e \<Rightarrow> (Some e, sim)
      | Inr attacker \<Rightarrow>
          (case target_ids ev of
             [] \<Rightarrow> (Some IndexError, sim)
           | t # _ \<Rightarrow>
               (case get_npc (world sim) t of
                  Inl e \<Rightarrow> (Some e, sim)
                | Inr target \<Rightarrow>
                    (case resolve_attack py_int rnd (world sim) attacker target (rng sim) of
                       (Inl e, g1) \<Rightarrow> (Some e, sim\<lparr>rng := g1\<rparr>)
                     | (Inr result, g1) \<Rightarrow>
                         (case get_weapon (world sim) attacker of
                            Inl e \<Rightarrow> (Some e, sim\<lparr>rng := g1\<rparr>)
                          | Inr weapon \<Rightarrow>
                              (None, sim\<lparr>rng := g1,
                                         event_queue := event_queue sim @
                                           attack_events (game_tick sim) ev result
                                             (damage_type weapon)\<rparr>))))))"

definition handle_toggle_starvation :: "'g Simulator \<Rightarrow> Event \<Rightarrow> 'g Simulator outcome" where
  "handle_toggle_starvation sim ev =
     (let enabled = truthy (dict_get (payload ev) ''enabled'' (JBool True)) in
      if enabled then (None, sim\<lparr>starvation_enabled := True\<rparr>)
      else
        (None, sim\<lparr>starvation_enabled := False,
                   world := (world sim)\<lparr>npcs :=
                     map (\<lambda>(k, n). (k, n\<lparr>hunger_stage := ''sated'', last_meal_tick := game_tick sim\<rparr>))
                       (npcs (world sim))\<rparr>\<rparr>))"

text \<open>
  The handler table. The handlers of the first list only narrate, or write only the
  conversation tables; an event type without a handler is applied to the world.
\<close>

definition narrate_only :: "string list" where
  "narrate_only =
     [''describe_location'', ''attack_hit'', ''attack_missed'', ''talk'', ''talk_loud'', ''scream'',
      ''inventory'', ''stats'', ''analyze'', ''wait'', ''leave_conversation'']"

definition run_handler ::
  "int_parser \<Rightarrow> 'g randint \<Rightarrow> 'g Simulator \<Rightarrow> Event \<Rightarrow> 'g Simulator outcome" where
  "run_handler py_int rnd sim ev =
     (let t = event_type ev in
      if t \<in> set narrate_only then (None, sim)
      else if t = ''attack_attempt'' then handle_attack_attempt py_int rnd sim ev
      else if t = ''damage_applied'' then handle_damage_applied sim ev
      else if t = ''toggle_starvation'' then handle_toggle_starvation sim ev
      else handle_world_event sim ev)"

definition handle_event ::
  "int_parser \<Rightarrow> 'g randint \<Rightarrow> 'g Simulator \<Rightarrow> Event \<Rightarrow> 'g Simulator outcome" where
  "handle_event py_int rnd sim ev =
     (case run_handler py_int rnd sim ev of
        (Some e, sim1) \<Rightarrow> (Some e, sim1)
      | (None, sim1) \<Rightarrow>
          (None, sim1\<lparr>world := record_perception (perception_buffer_size sim1) (world sim1) ev\<rparr>))"

fun handle_events ::
  "int_parser \<Rightarrow> 'g randint \<Rightarrow> Event list \<Rightarrow> 'g Simulator \<Rightarrow> 'g Simulator outcome" where
  \<comment> \<open>\<open>for event in ready_events: self.handle_event(event)\<close>; an exception ends the loop\<close>
  "handle_events py_int rnd [] sim = (None, sim)"
| "handle_events py_int rnd (ev # rest) sim =
     (case handle_event py_int rnd sim ev of
        (Some e, sim1) \<Rightarrow> (Some e, sim1)
      | (None, sim1) \<Rightarrow> handle_events py_int rnd rest sim1)"

text \<open>
  \<open>tick\<close>: the ready events are copied out of the queue once, the queue keeps the later
  ones, and the handlers run over the copy. What a handler appends goes to the queue, not
  to the copy.
\<close>

definition simulator_tick ::
  "int_parser \<Rightarrow> 'g randint \<Rightarrow> 'g Simulator \<Rightarrow> 'g Simulator outcome" where
  "simulator_tick py_int rnd sim =
     (let sim1 = sim\<lparr>game_tick := game_tick sim + 1\<rparr>;
          sim2 = (if starvation_enabled sim1 then
                    (case update_hunger (world sim1) (game_tick sim1) of
                       (hunger_events, w1) \<Rightarrow>
                         sim1\<lparr>world := w1, event_queue := event_queue sim1 @ hunger_events\<rparr>)
                  else sim1);
          ready_events = filter (\<lambda>e. tick e \<le> game_tick sim2) (event_queue sim2);
          sim3 = sim2\<lparr>event_queue := filter (\<lambda>e. tick e > game_tick sim2) (event_queue sim2)\<rparr>
      in handle_events py_int rnd ready_events sim3)"

section \<open>A small world for the concrete cases\<close>

text \<open>
  Three locations: the town square lists the tavern (east) and the market square (west)
  as static neighbours; the edge to the tavern is closed, the edge to the market is open.
  The guard and the sample agent stand on the town square, the bard and a watcher with the
  inherent tag \<open>elevated_vantage_point\<close> are in the tavern, the merchant is on the market.
\<close>

definition mk_npc :: "string \<Rightarrow> string list \<Rightarrow> int \<Rightarrow> string list \<Rightarrow> NPC" where
  "mk_npc i items_held h inherent =
     \<lparr>npc_id = i, npc_name = i, inventory = items_held, slots = [(''main_hand'', None)], hp = h,
      tags = [(''inherent'', inherent), (''dynamic'', [])], short_term_memory = [],
      next_available_tick = 0, last_meal_tick = 0, hunger_stage = ''sated'',
      attributes = [(''strength'', 10), (''dexterity'', 10), (''constitution'', 10)],
      skills = []\<rparr>"

definition demo_world :: WorldState where
  "demo_world =
     \<lparr>npcs =
        [(''npc_guard'', mk_npc ''npc_guard'' [''sword_1'', ''apple_1''] 10 []),
         (''npc_sample'', mk_npc ''npc_sample'' [] 10 []),
         (''npc_bard'', mk_npc ''npc_bard'' [] 10 []),
         (''npc_watcher'', mk_npc ''npc_watcher'' [] 10 [''elevated_vantage_point'']),
         (''npc_merchant'', mk_npc ''npc_merchant'' [] 10 [])],
      locations_static =
        [(''town_square'', \<lparr>ls_id = ''town_square'', description = ''The square'',
            hex_connections = [(''east'', ''tavern''), (''west'', ''market_square'')]\<rparr>),
         (''tavern'', \<lparr>ls_id = ''tavern'', description = ''The tavern'',
            hex_connections = [(''west'', ''town_square'')]\<rparr>),
         (''market_square'', \<lparr>ls_id = ''market_square'', description = ''The market'',
            hex_connections = [(''east'', ''town_square'')]\<rparr>)],
      locations_state =
        [(''town_square'', \<lparr>loc_id = ''town_square'', occupants = [''npc_guard'', ''npc_sample''],
            items = [''rock_1''],
            connections_state = [(''tavern'', [(''status'', ''closed''), (''direction'', ''east'')]),
                                 (''market_square'', [(''status'', ''open''), (''direction'', ''west'')])]\<rparr>),
         (''tavern'', \<lparr>loc_id = ''tavern'', occupants = [''npc_bard'', ''npc_watcher''], items = [],
            connections_state = [(''town_square'', [(''status'', ''closed''), (''direction'', ''west'')])]\<rparr>),
         (''market_square'', \<lparr>loc_id = ''market_square'', occupants = [''npc_merchant''], items = [],
            connections_state = [(''town_square'', [(''status'', ''open''), (''direction'', ''east'')])]\<rparr>)],
      item_blueprints =
        [(''sword'', \<lparr>bp_id = ''sword'', bp_name = ''Sword'', weight = 3, damage_dice = ''1d8'',
            damage_type = ''slashing'', armour_rating = 0, skill_tag = ''swords'', properties = []\<rparr>),
         (''apple'', \<lparr>bp_id = ''apple'', bp_name = ''Apple'', weight = 1, damage_dice = ''1d4'',
            damage_type = ''bludgeoning'', armour_rating = 0, skill_tag = ''unarmed_combat'',
            properties = [''food'']\<rparr>)],
      item_instances =
        [(''sword_1'', \<lparr>inst_id = ''sword_1'', blueprint_id = ''sword'', current_location = None,
            owner_id = Some ''npc_guard''\<rparr>),
         (''apple_1'', \<lparr>inst_id = ''apple_1'', blueprint_id = ''apple'', current_location = None,
            owner_id = Some ''npc_guard''\<rparr>),
         (''rock_1'', \<lparr>inst_id = ''rock_1'', blueprint_id = ''rock'',
            current_location = Some ''town_square'', owner_id = None\<rparr>)]\<rparr>"

definition mk_event :: "string \<Rightarrow> int \<Rightarrow> string \<Rightarrow> string list \<Rightarrow> (string, jval) dict \<Rightarrow> Event" where
  "mk_event t n a ts p = \<lparr>event_type = t, tick = n, actor_id = a, target_ids = ts, payload = p\<rparr>"

text \<open>
  For the concrete cases the two library parameters are a parser of plain decimal
  numerals and a generator that plays back a list of prepared draws.
\<close>

fun dec_int_acc :: "string \<Rightarrow> int \<Rightarrow> int option" where
  "dec_int_acc [] acc = Some acc"
| "dec_int_acc (c # cs) acc =
     (case map_of (zip ''0123456789'' [0, 1, 2, 3, 4, 5, 6, 7, 8, 9]) c of
        None \<Rightarrow> None
      | Some v \<Rightarrow> dec_int_acc cs (10 * acc + v))"

definition dec_int :: int_parser where
  "dec_int s = (if s = [] then None else dec_int_acc s 0)"

definition tape_randint :: "int list randint" where
  "tape_randint g lo hi = (case g of [] \<Rightarrow> (lo, []) | x # xs \<Rightarrow> (x, xs))"

definition demo_sim :: "int list Simulator" where
  "demo_sim =
     \<lparr>world = demo_world, game_tick = 0, event_queue = [], tools = [(''move'', MoveTool 5)],
      starvation_enabled = True, perception_buffer_size = 30, rng = [15, 3]\<rparr>"

definition drop_sword :: Event where
  "drop_sword = mk_event ''drop'' 0 ''npc_guard'' [''sword_1''] []"

definition grab_sword :: Event where
  "grab_sword = mk_event ''grab'' 1 ''npc_guard'' [''sword_1''] []"

definition grab_rock :: Event where
  "grab_rock = mk_event ''grab'' 0 ''npc_guard'' [''rock_1''] []"

definition scream_help :: Event where
  "scream_help = mk_event ''scream'' 0 ''npc_guard'' [] [(''content'', JStr ''help'')]"

definition talk_loud_help :: Event where
  "talk_loud_help = mk_event ''talk_loud'' 0 ''npc_guard'' [] [(''content'', JStr ''help'')]"

definition move_to :: "string \<Rightarrow> Command" where
  "move_to l = \<lparr>cmd_tool = Some ''move'', cmd_params = Some (JDict [(''target_location'', JStr l)])\<rparr>"

text \<open>An agent that stands in no location, with an item in hand and one in the bag.\<close>

definition npc_ghost :: NPC where
  "npc_ghost = (mk_npc ''npc_ghost'' [''coin_1''] 0 [])\<lparr>slots := [(''main_hand'', Some ''dagger_1'')]\<rparr>"

definition ghost_world :: WorldState where
  "ghost_world = demo_world\<lparr>npcs := npcs demo_world @ [(''npc_ghost'', npc_ghost)]\<rparr>"

text \<open>
  A hermit with one hit point whose last meal was at tick 0, alone in a hut, at tick 39
  with starvation enabled and nothing queued.
\<close>

definition hermit_world :: WorldState where
  "hermit_world =
     \<lparr>npcs = [(''npc_hermit'', mk_npc ''npc_hermit'' [] 1 [])],
      locations_static = [(''hut'', \<lparr>ls_id = ''hut'', description = ''A hut'', hex_connections = []\<rparr>)],
      locations_state = [(''hut'', \<lparr>loc_id = ''hut'', occupants = [''npc_hermit''], items = [],
                                   connections_state = []\<rparr>)],
      item_blueprints = [], item_instances = []\<rparr>"

definition hermit_sim :: "int list Simulator" where
  "hermit_sim =
     \<lparr>world = hermit_world, game_tick = 39, event_queue = [], tools = [],
      starvation_enabled = True, perception_buffer_size = 30, rng = []\<rparr>"

text \<open>
  The town square with a first static neighbour that has no location state: the data
  names \<open>old_gate\<close> to the north, before the tavern and the market.
\<close>

definition gate_world :: WorldState where
  "gate_world =
     demo_world\<lparr>locations_static :=
       AList.update ''town_square''
         \<lparr>ls_id = ''town_square'', description = ''The square'',
          hex_connections = [(''north'', ''old_gate''), (''east'', ''tavern''),
                             (''west'', ''market_square'')]\<rparr>
         (locations_static demo_world)\<rparr>"

text \<open>The guard is busy until tick 5.\<close>

definition busy_sim :: "int list Simulator" where
  "busy_sim =
     demo_sim\<lparr>world := set_npc demo_world ''npc_guard''
        ((mk_npc ''npc_guard'' [''sword_1'', ''apple_1''] 10 [])\<lparr>next_available_tick := 5\<rparr>)\<rparr>"

text \<open>
  Four living agents whose last meals were 19, 20, 39 and 40 ticks before tick 100, and a
  dead one who last ate at tick 0.
\<close>

definition fed_at :: "string \<Rightarrow> int \<Rightarrow> NPC" where
  "fed_at i t = (mk_npc i [] 10 [])\<lparr>last_meal_tick := t\<rparr>"

definition hunger_world :: WorldState where
  "hunger_world =
     \<lparr>npcs = [(''a19'', fed_at ''a19'' 81), (''a20'', fed_at ''a20'' 80), (''a39'', fed_at ''a39'' 61),
              (''a40'', fed_at ''a40'' 60),
              (''gone'', (fed_at ''gone'' 0)\<lparr>tags := [(''inherent'', []), (''dynamic'', [''dead''])]\<rparr>)],
      locations_static = [], locations_state = [], item_blueprints = [], item_instances = []\<rparr>"

text \<open>
  The cellar is joined to the town square by a dynamic connection only, as the editor
  operations that create and connect locations leave it: both location states list the
  edge as open, no static record lists it. A miner stands in the cellar.
\<close>

definition cellar_world :: WorldState where
  "cellar_world =
     \<lparr>npcs = npcs demo_world @ [(''npc_miner'', mk_npc ''npc_miner'' [] 10 [])],
      locations_static = locations_static demo_world @
        [(''cellar'', \<lparr>ls_id = ''cellar'', description = ''The cellar'', hex_connections = []\<rparr>)],
      locations_state =
        [(''town_square'', \<lparr>loc_id = ''town_square'', occupants = [''npc_guard'', ''npc_sample''],
            items = [''rock_1''],
            connections_state = [(''tavern'', [(''status'', ''closed''), (''direction'', ''east'')]),
                                 (''market_square'', [(''status'', ''open''), (''direction'', ''west'')]),
                                 (''cellar'', [(''status'', ''open'')])]\<rparr>),
         (''tavern'', \<lparr>loc_id = ''tavern'', occupants = [''npc_bard'', ''npc_watcher''], items = [],
            connections_state = [(''town_square'', [(''status'', ''closed''), (''direction'', ''west'')])]\<rparr>),
         (''market_square'', \<lparr>loc_id = ''market_square'', occupants = [''npc_merchant''], items = [],
            connections_state = [(''town_square'', [(''status'', ''open''), (''direction'', ''east'')])]\<rparr>),
         (''cellar'', \<lparr>loc_id = ''cellar'', occupants = [''npc_miner''], items = [],
            connections_state = [(''town_square'', [(''status'', ''open'')])]\<rparr>)],
      item_blueprints = item_blueprints demo_world,
      item_instances = item_instances demo_world\<rparr>"




section \<open>Association lists and locations\<close>

lemmas world_simps =
  find_npc_location_def truthy_id_def set_npc_def set_location_state_def set_item_instance_def
  mark_item_def dict_get_def get_npc_def get_location_state_def get_location_static_def
  mk_npc_def mk_event_def Let_def

lemmas perception_simps =
  record_perception_def primary_location_def perception_recipients_def noise_recipients_def
  direct_recipients_def edge_open_def perceive_def make_perception_from_event_def

lemma update_triv: "map_of al k = Some v \<Longrightarrow> AList.update k v al = al"
  by (induction al) (auto split: if_splits)

lemma update_twice: "AList.update k v (AList.update k v' al) = AList.update k v al"
  by (induction al) auto

lemma map_of_update_same: "map_of (AList.update k v al) k = Some v"
  by (simp add: update_conv')

lemma find_in_locations_update:
  "map_of ls l = Some st \<Longrightarrow> occupants st' = occupants st \<Longrightarrow>
   find_in_locations (AList.update l st' ls) a = find_in_locations ls a"
  by (induction ls) (auto split: if_splits)

lemma find_in_locations_None:
  "find_in_locations ls a = None \<longleftrightarrow> (\<forall>(l, st) \<in> set ls. a \<notin> set (occupants st))"
  by (induction ls) (auto split: if_splits)

lemma remove1_snoc: "x \<notin> set xs \<Longrightarrow> remove1 x (xs @ [x]) = xs"
  by (induction xs) auto

section \<open>What a recipient gets\<close>

text \<open>
  Every recipient that is a known agent ends up with the projected entry as the newest
  element of its short-term memory, and the buffer stays within the configured size.
\<close>

lemma cap_stm_last: "0 < cap \<Longrightarrow> xs \<noteq> [] \<Longrightarrow> cap_stm cap xs \<noteq> [] \<and> last (cap_stm cap xs) = last xs"
proof (induction xs)
  case Nil
  then show ?case by simp
next
  case (Cons x xs)
  show ?case
  proof (cases "xs = []")
    case True
    with Cons.prems show ?thesis by simp
  next
    case False
    with Cons show ?thesis by simp
  qed
qed

lemma cap_stm_length: "0 < cap \<Longrightarrow> length (cap_stm cap xs) \<le> cap"
  by (induction xs) auto

lemma map_of_map_values:
  "map_of (map (\<lambda>(k, n). if P k then (k, f n) else (k, n)) xs) k =
     map_option (\<lambda>n. if P k then f n else n) (map_of xs k)"
  by (induction xs) auto

lemma record_perception_entry:
  assumes "event_type ev \<noteq> ''describe_location''" "event_type ev \<noteq> ''wait''"
    and "primary_location w ev = Some l" "l \<noteq> []"
    and "a \<in> perception_recipients w ev l"
    and "map_of (npcs w) a = Some n"
  shows "\<exists>n'. map_of (npcs (record_perception b w ev)) a = Some n' \<and>
           short_term_memory n' \<noteq> [] \<and>
           last (short_term_memory n') = make_perception_from_event ev (Some l) \<and>
           int (length (short_term_memory n')) \<le> max 1 b"
proof -
  let ?pe = "make_perception_from_event ev (Some l)"
  have "map_of (npcs (record_perception b w ev)) a = Some (perceive b ?pe n)"
    using assms by (simp add: record_perception_def truthy_id_def map_of_map_values Let_def)
  moreover have "short_term_memory (perceive b ?pe n) \<noteq> []
      \<and> last (short_term_memory (perceive b ?pe n)) = ?pe"
    using cap_stm_last [of "nat (max 1 b)" "short_term_memory n @ [?pe]"]
    by (simp add: perceive_def)
  moreover have "int (length (short_term_memory (perceive b ?pe n))) \<le> max 1 b"
  proof -
    have "0 < nat (max 1 b)" by simp
    from cap_stm_length [OF this, of "short_term_memory n @ [?pe]"]
    show ?thesis by (simp add: perceive_def)
  qed
  ultimately show ?thesis by blast
qed

section \<open>Perception across locations\<close>

text \<open>
  C1, at a concrete input. The guard drops the sword on the town square; the watcher, who
  bears the inherent tag \<open>elevated_vantage_point\<close>, stands in the neighbouring tavern.
  The drop event is handled without error, the sample agent on the square gets the
  perception entry, and the short-term memory of the watcher stays empty: the recipients
  are the occupants of the primary location only.
\<close>

theorem vantage_point_not_perceived:
  "fst (handle_event dec_int tape_randint demo_sim drop_sword) = None \<and>
   map (\<lambda>(k, n). (k, map pe_event_type (short_term_memory n)))
       (npcs (world (snd (handle_event dec_int tape_randint demo_sim drop_sword)))) =
     [(''npc_guard'', []), (''npc_sample'', [''drop'']), (''npc_bard'', []), (''npc_watcher'', []),
      (''npc_merchant'', [])] \<and>
   dict_get (tags (mk_npc ''npc_watcher'' [] 10 [''elevated_vantage_point''])) ''inherent'' []
     = [''elevated_vantage_point''] \<and>
   map_of (npcs demo_world) ''npc_watcher'' = Some (mk_npc ''npc_watcher'' [] 10 [''elevated_vantage_point'']) \<and>
   find_npc_location demo_world ''npc_watcher'' = Some ''tavern'' \<and>
   primary_location demo_world drop_sword = Some ''town_square'' \<and>
   map snd (hex_connections (the (map_of (locations_static demo_world) ''town_square'')))
     = [''tavern'', ''market_square'']"
  by (simp add: handle_event_def run_handler_def narrate_only_def handle_world_event_def
      apply_event_def apply_drop_def demo_sim_def demo_world_def drop_sword_def
      world_simps perception_simps)

section \<open>Loud events\<close>

lemma noise_loop_mono: "a \<in> R \<Longrightarrow> a \<in> noise_loop w et here nbs R"
  by (induction nbs arbitrary: R) (auto split: sum.splits)

lemma noise_loop_complete:
  assumes "\<forall>n \<in> set nbs. map_of (locations_state w) n \<noteq> None"
    and "nb \<in> set nbs" and "map_of (locations_state w) nb = Some st"
    and "et = ''scream'' \<or> edge_open here nb" and "a \<in> set (occupants st)"
  shows "a \<in> noise_loop w et here nbs R"
  using assms
proof (induction nbs arbitrary: R)
  case Nil
  then show ?case by simp
next
  case (Cons n nbs)
  show ?case
  proof (cases "n = nb")
    case True
    with Cons.prems show ?thesis
      by (auto simp: get_location_state_def intro: noise_loop_mono)
  next
    case False
    with Cons.prems have "nb \<in> set nbs" by simp
    with Cons show ?thesis
      by (auto simp: get_location_state_def split: option.splits)
  qed
qed

lemma noise_loop_sound:
  "a \<in> noise_loop w et here nbs R \<Longrightarrow>
   a \<in> R \<or> (\<exists>n \<in> set nbs. \<exists>st. map_of (locations_state w) n = Some st \<and>
                a \<in> set (occupants st) \<and> (et = ''scream'' \<or> edge_open here n))"
proof (induction nbs arbitrary: R)
  case Nil
  then show ?case by simp
next
  case (Cons n nbs)
  show ?case
  proof (cases "et = ''scream'' \<or> edge_open here n")
    case False
    with Cons.prems have "a \<in> noise_loop w et here nbs R" by simp
    from Cons.IH [OF this] show ?thesis by auto
  next
    case True
    show ?thesis
    proof (cases "map_of (locations_state w) n")
      case None
      with True Cons.prems show ?thesis by (simp add: get_location_state_def)
    next
      case (Some st)
      with True Cons.prems have "a \<in> noise_loop w et here nbs (R \<union> set (occupants st))"
        by (simp add: get_location_state_def)
      from Cons.IH [OF this] Some True show ?thesis by auto
    qed
  qed
qed

text \<open>
  C2, at a concrete input. The static record of the town square lists \<open>old_gate\<close>, the
  tavern and the market square, in this order, and \<open>old_gate\<close> has no location state, as
  after the deletion of that location, which removes its own records and leaves the
  \<open>hex_connections\<close> of the others. The guard screams on the town square. The lookup of
  the state of \<open>old_gate\<close> raises inside the one \<open>try\<close> around the loop over the
  neighbours, the loop ends there, and the merchant on the market square and the bard in
  the tavern, occupants of neighbours of the primary location, are no recipients.
\<close>

theorem scream_stops_at_missing_neighbour:
  "map snd (hex_connections (the (map_of (locations_static gate_world) ''town_square'')))
     = [''old_gate'', ''tavern'', ''market_square''] \<and>
   map_of (locations_state gate_world) ''old_gate'' = None \<and>
   occupants (the (map_of (locations_state gate_world) ''market_square'')) = [''npc_merchant''] \<and>
   occupants (the (map_of (locations_state gate_world) ''tavern'')) = [''npc_bard'', ''npc_watcher''] \<and>
   primary_location gate_world scream_help = Some ''town_square'' \<and>
   perception_recipients gate_world scream_help ''town_square'' = {''npc_sample''}"
  by (simp add: gate_world_def demo_world_def scream_help_def world_simps perception_simps)

text \<open>
  A neighbour that is joined by a dynamic connection only is not reached either: the
  guard may move to the cellar, and the miner there is no recipient of the scream.
\<close>

lemma scream_misses_dynamic_neighbour:
  "move_validate_intent [(''target_location'', JStr ''cellar'')] cellar_world
     (mk_npc ''npc_guard'' [''sword_1'', ''apple_1''] 10 []) = Inr True \<and>
   occupants (the (map_of (locations_state cellar_world) ''cellar'')) = [''npc_miner''] \<and>
   ''npc_miner'' \<notin> perception_recipients cellar_world scream_help ''town_square''"
  by (simp add: cellar_world_def demo_world_def scream_help_def move_validate_intent_def pget_def
      truthy_def as_key_def world_simps perception_simps)

text \<open>
  What the loop does when nothing is missing. Let the primary location \<open>l\<close> have a static
  record and a state, and let every neighbour listed in the static record have a location
  state. Then for an occupant \<open>a\<close> of a listed neighbour \<open>nb\<close>: a scream makes \<open>a\<close> a
  recipient whatever the status of the edge; a \<open>talk_loud\<close> makes \<open>a\<close> a recipient when
  the edge to \<open>nb\<close> is open (a missing status counts as open), and, when \<open>nb\<close> is not
  \<open>l\<close> itself and \<open>a\<close> occupies no other location, only then.
\<close>

lemma loud_events_reach_neighbours:
  assumes static: "map_of (locations_static w) l = Some ls"
    and here: "map_of (locations_state w) l = Some here"
    and states: "\<forall>n \<in> set (map snd (hex_connections ls)). map_of (locations_state w) n \<noteq> None"
    and nb: "nb \<in> set (map snd (hex_connections ls))"
    and st: "map_of (locations_state w) nb = Some st"
    and occ: "a \<in> set (occupants st)"
  shows "(event_type ev = ''scream'' \<longrightarrow> a \<in> perception_recipients w ev l) \<and>
         (event_type ev = ''talk_loud'' \<longrightarrow>
            (edge_open here nb \<longrightarrow> a \<in> perception_recipients w ev l) \<and>
            (a \<in> perception_recipients w ev l \<and> nb \<noteq> l \<and>
             (\<forall>l' st'. map_of (locations_state w) l' = Some st' \<and> a \<in> set (occupants st')
                        \<longrightarrow> l' = nb)
             \<longrightarrow> edge_open here nb))"
proof -
  have run: "event_type ev = ''scream'' \<or> event_type ev = ''talk_loud'' \<Longrightarrow>
      perception_recipients w ev l =
        noise_loop w (event_type ev) here (map snd (hex_connections ls)) (direct_recipients w ev l)"
    using static here
    by (simp add: perception_recipients_def noise_recipients_def get_location_static_def
        get_location_state_def)
  have loud: "event_type ev = ''scream'' \<or> (event_type ev = ''talk_loud'' \<and> edge_open here nb)
      \<Longrightarrow> a \<in> perception_recipients w ev l"
    using run noise_loop_complete [OF states nb st _ occ, of "event_type ev" here] by auto
  have quiet: "edge_open here nb"
    if tl: "event_type ev = ''talk_loud''" and rec: "a \<in> perception_recipients w ev l"
      and away: "nb \<noteq> l"
      and only: "\<forall>l' st'. map_of (locations_state w) l' = Some st' \<and> a \<in> set (occupants st') \<longrightarrow> l' = nb"
  proof -
    from rec run tl have "a \<in> noise_loop w ''talk_loud'' here (map snd (hex_connections ls))
        (direct_recipients w ev l)" by simp
    from noise_loop_sound [OF this]
    show ?thesis
    proof
      assume "a \<in> direct_recipients w ev l"
      then have "a \<in> set (occupants here)"
        using here by (simp add: direct_recipients_def get_location_state_def)
      with only here away show ?thesis by blast
    next
      assume "\<exists>n\<in>set (map snd (hex_connections ls)). \<exists>st. map_of (locations_state w) n = Some st \<and>
                a \<in> set (occupants st) \<and> (''talk_loud'' = ''scream'' \<or> edge_open here n)"
      then obtain n st' where "map_of (locations_state w) n = Some st'" "a \<in> set (occupants st')"
        "edge_open here n" by auto
      with only show ?thesis by blast
    qed
  qed
  show ?thesis using loud quiet by blast
qed

lemma loud_events_in_demo_world:
  "''npc_bard'' \<in> perception_recipients demo_world scream_help ''town_square'' \<and>
   ''npc_bard'' \<notin> perception_recipients demo_world talk_loud_help ''town_square'' \<and>
   ''npc_merchant'' \<in> perception_recipients demo_world talk_loud_help ''town_square''"
proof -
  obtain ls where ls: "map_of (locations_static demo_world) ''town_square'' = Some ls"
    and nbs: "map snd (hex_connections ls) = [''tavern'', ''market_square'']"
    by (simp add: demo_world_def)
  obtain here where here: "map_of (locations_state demo_world) ''town_square'' = Some here"
    and closed: "\<not> edge_open here ''tavern''" and opened: "edge_open here ''market_square''"
    by (simp add: demo_world_def edge_open_def dict_get_def)
  have states: "\<forall>n \<in> set (map snd (hex_connections ls)). map_of (locations_state demo_world) n \<noteq> None"
    by (simp add: nbs demo_world_def)
  obtain tavern where tavern: "map_of (locations_state demo_world) ''tavern'' = Some tavern"
    and bard: "''npc_bard'' \<in> set (occupants tavern)"
    by (simp add: demo_world_def)
  obtain market where market: "map_of (locations_state demo_world) ''market_square'' = Some market"
    and merchant: "''npc_merchant'' \<in> set (occupants market)"
    by (simp add: demo_world_def)
  have nb1: "''tavern'' \<in> set (map snd (hex_connections ls))"
    and nb2: "''market_square'' \<in> set (map snd (hex_connections ls))"
    by (simp_all add: nbs)
  have only: "\<forall>l' st'. map_of (locations_state demo_world) l' = Some st' \<and>
      ''npc_bard'' \<in> set (occupants st') \<longrightarrow> l' = ''tavern''"
    by (auto simp add: demo_world_def split: if_splits)
  have s: "event_type scream_help = ''scream''" and t: "event_type talk_loud_help = ''talk_loud''"
    by (simp_all add: scream_help_def talk_loud_help_def mk_event_def)
  from loud_events_reach_neighbours [OF ls here states nb1 tavern bard, of scream_help] s
  have c1: "''npc_bard'' \<in> perception_recipients demo_world scream_help ''town_square''" by simp
  from loud_events_reach_neighbours [OF ls here states nb1 tavern bard, of talk_loud_help] t closed only
  have c2: "''npc_bard'' \<notin> perception_recipients demo_world talk_loud_help ''town_square''" by auto
  from loud_events_reach_neighbours [OF ls here states nb2 market merchant, of talk_loud_help] t opened
  have c3: "''npc_merchant'' \<in> perception_recipients demo_world talk_loud_help ''town_square''" by simp
  from c1 c2 c3 show ?thesis by simp
qed

section \<open>Drop then grab\<close>

text \<open>
  C3, as the code has it. The claim says that dropping an item and grabbing it again
  restores the inventory with its order. \<open>drop\<close> removes the first occurrence of the item
  and \<open>grab\<close> appends it, so an item that was not last changes place: the guard who
  carries the sword and then the apple ends with the apple first.
\<close>

theorem drop_grab_reorders_inventory:
  "map_of (npcs (snd (apply_event (snd (apply_event demo_world drop_sword)) grab_sword))) ''npc_guard''
     = Some (mk_npc ''npc_guard'' [''apple_1'', ''sword_1''] 10 [])
   \<and> map_of (npcs demo_world) ''npc_guard'' = Some (mk_npc ''npc_guard'' [''sword_1'', ''apple_1''] 10 [])"
  by (simp add: apply_event_def apply_drop_def apply_grab_def drop_sword_def grab_sword_def
      demo_world_def world_simps)

text \<open>
  C3 (amended). An agent \<open>a\<close> that holds the item \<open>i\<close> and occupies the location \<open>l\<close>
  (which does not already list \<open>i\<close>), where the instance of \<open>i\<close>, if there is one, names
  \<open>a\<close> as owner and no location: the drop event succeeds, and the grab event after it
  returns the world to the state before the drop except that the first occurrence of
  \<open>i\<close> in the inventory has moved to the end. The locations, the instance and everything
  else are as before, and the whole world is as before exactly when moving the first
  occurrence of \<open>i\<close> to the end leaves the inventory as it was, as it does when \<open>i\<close>
  occurs once, as the last entry.
\<close>

theorem drop_then_grab:
  assumes d: "event_type d = ''drop''" "actor_id d = a" "target_ids d = [i]"
    and g: "event_type g = ''grab''" "actor_id g = a" "target_ids g = [i]"
    and npc: "map_of (npcs w) a = Some npc"
    and held: "i \<in> set (inventory npc)"
    and loc: "find_npc_location w a = Some l" "l \<noteq> []"
    and st: "map_of (locations_state w) l = Some st"
    and fresh: "i \<notin> set (items st)"
    and inst: "\<forall>inst. map_of (item_instances w) i = Some inst \<longrightarrow>
                 owner_id inst = Some a \<and> current_location inst = None"
  shows "\<exists>w1. apply_event w d = (None, w1) \<and>
           apply_event w1 g =
             (None, w\<lparr>npcs := AList.update a (npc\<lparr>inventory := remove1 i (inventory npc) @ [i]\<rparr>) (npcs w)\<rparr>)
           \<and> (apply_event w1 g = (None, w) \<longleftrightarrow> remove1 i (inventory npc) @ [i] = inventory npc)
           \<and> (\<forall>xs. inventory npc = xs @ [i] \<and> i \<notin> set xs \<longrightarrow> apply_event w1 g = (None, w))"
proof -
  define npc1 where "npc1 = npc\<lparr>inventory := remove1 i (inventory npc)\<rparr>"
  define st1 where "st1 = st\<lparr>items := items st @ [i]\<rparr>"
  define wd where "wd = mark_item (set_location_state (set_npc w a npc1) l st1) i None (Some l)"
  have drop: "apply_event w d = (None, wd)"
    using d npc held loc st
    by (simp add: apply_event_def apply_drop_def truthy_id_def Let_def set_npc_def wd_def npc1_def st1_def)
  have wd_npcs: "npcs wd = AList.update a npc1 (npcs w)"
    by (simp add: wd_def mark_item_def set_location_state_def set_npc_def set_item_instance_def split: option.splits)
  have wd_locs: "locations_state wd = AList.update l st1 (locations_state w)"
    by (simp add: wd_def mark_item_def set_location_state_def set_npc_def set_item_instance_def split: option.splits)
  have wd_rest: "locations_static wd = locations_static w" "item_blueprints wd = item_blueprints w"
    by (simp_all add: wd_def mark_item_def set_location_state_def set_npc_def set_item_instance_def split: option.splits)
  have wd_inst: "item_instances wd =
      (case map_of (item_instances w) i of None \<Rightarrow> item_instances w
       | Some inst \<Rightarrow> AList.update i (inst\<lparr>owner_id := None, current_location := Some l\<rparr>) (item_instances w))"
    by (simp add: wd_def mark_item_def set_location_state_def set_npc_def set_item_instance_def split: option.splits)
  have find: "find_npc_location wd a = Some l"
    using loc st by (simp add: find_npc_location_def wd_locs find_in_locations_update st1_def)
  have st_restored: "st1\<lparr>items := remove1 i (items st1)\<rparr> = st"
    using fresh by (simp add: st1_def remove1_snoc)
  have inst_back: "item_instances (mark_item
        (set_npc (set_location_state wd l st) a (npc1\<lparr>inventory := inventory npc1 @ [i]\<rparr>)) i (Some a) None)
      = item_instances w"
  proof (cases "map_of (item_instances w) i")
    case None
    then show ?thesis
      by (simp add: mark_item_def set_npc_def set_location_state_def wd_inst)
  next
    case (Some inst0)
    with inst have "inst0\<lparr>owner_id := Some a, current_location := None\<rparr> = inst0" by simp
    with Some show ?thesis
      by (simp add: mark_item_def set_npc_def set_location_state_def set_item_instance_def wd_inst
          map_of_update_same update_twice update_triv)
  qed
  have grab: "apply_event wd g =
      (None, mark_item (set_npc (set_location_state wd l st) a (npc1\<lparr>inventory := inventory npc1 @ [i]\<rparr>)) i (Some a) None)"
    using g find loc(2) st_restored
    by (simp add: apply_event_def apply_grab_def truthy_id_def Let_def wd_locs map_of_update_same
        set_location_state_def set_npc_def wd_npcs st1_def)
  have final: "mark_item (set_npc (set_location_state wd l st) a (npc1\<lparr>inventory := inventory npc1 @ [i]\<rparr>)) i (Some a) None
      = w\<lparr>npcs := AList.update a (npc\<lparr>inventory := remove1 i (inventory npc) @ [i]\<rparr>) (npcs w)\<rparr>"
    (is "?lhs = ?rhs")
  proof -
    have "npcs ?lhs = npcs ?rhs"
      by (simp add: mark_item_def set_npc_def set_location_state_def set_item_instance_def wd_npcs
          update_twice npc1_def split: option.splits)
    moreover have "locations_state ?lhs = locations_state ?rhs"
      using st by (simp add: mark_item_def set_npc_def set_location_state_def set_item_instance_def
          wd_locs update_twice update_triv split: option.splits)
    moreover have "item_instances ?lhs = item_instances ?rhs"
      using inst_back by simp
    moreover have "locations_static ?lhs = locations_static ?rhs" "item_blueprints ?lhs = item_blueprints ?rhs"
      by (simp_all add: mark_item_def set_npc_def set_location_state_def set_item_instance_def wd_rest
          split: option.splits)
    ultimately show ?thesis by (simp add: WorldState.equality)
  qed
  have same: "?rhs = w \<longleftrightarrow> remove1 i (inventory npc) @ [i] = inventory npc"
  proof
    assume "?rhs = w"
    then have "map_of (npcs ?rhs) a = map_of (npcs w) a" by simp
    with npc have "npc\<lparr>inventory := remove1 i (inventory npc) @ [i]\<rparr> = npc"
      by (simp add: map_of_update_same)
    then have "inventory (npc\<lparr>inventory := remove1 i (inventory npc) @ [i]\<rparr>) = inventory npc"
      by simp
    then show "remove1 i (inventory npc) @ [i] = inventory npc" by simp
  next
    assume "remove1 i (inventory npc) @ [i] = inventory npc"
    with npc show "?rhs = w" by (simp add: update_triv)
  qed
  have last: "\<forall>xs. inventory npc = xs @ [i] \<and> i \<notin> set xs \<longrightarrow> ?rhs = w"
    using npc by (auto simp: remove1_snoc update_triv)
  show ?thesis
    using drop grab final same last by auto
qed

theorem drop_then_grab_witness:
  "\<exists>w1. apply_event demo_world drop_sword = (None, w1) \<and>
         apply_event w1 grab_sword =
           (None, demo_world\<lparr>npcs := AList.update ''npc_guard''
                     (mk_npc ''npc_guard'' [''apple_1'', ''sword_1''] 10 []) (npcs demo_world)\<rparr>) \<and>
         apply_event w1 grab_sword \<noteq> (None, demo_world)"
proof -
  have h1: "event_type drop_sword = ''drop''" "actor_id drop_sword = ''npc_guard''"
    "target_ids drop_sword = [''sword_1'']"
    by (simp_all add: drop_sword_def mk_event_def)
  have h2: "event_type grab_sword = ''grab''" "actor_id grab_sword = ''npc_guard''"
    "target_ids grab_sword = [''sword_1'']"
    by (simp_all add: grab_sword_def mk_event_def)
  have h3: "map_of (npcs demo_world) ''npc_guard'' = Some (mk_npc ''npc_guard'' [''sword_1'', ''apple_1''] 10 [])"
    by (simp add: demo_world_def)
  have h4: "''sword_1'' \<in> set (inventory (mk_npc ''npc_guard'' [''sword_1'', ''apple_1''] 10 []))"
    by (simp add: mk_npc_def)
  have h5: "find_npc_location demo_world ''npc_guard'' = Some ''town_square''" "''town_square'' \<noteq> []"
    by (simp_all add: find_npc_location_def demo_world_def)
  obtain st where st: "map_of (locations_state demo_world) ''town_square'' = Some st"
    and fresh: "''sword_1'' \<notin> set (items st)"
    by (simp add: demo_world_def)
  have h6: "\<forall>inst. map_of (item_instances demo_world) ''sword_1'' = Some inst \<longrightarrow>
      owner_id inst = Some ''npc_guard'' \<and> current_location inst = None"
    by (auto simp add: demo_world_def)
  from drop_then_grab [OF h1 h2 h3 h4 h5 st fresh h6]
  show ?thesis by (auto simp add: mk_npc_def)
qed

section \<open>Death after a tick\<close>

text \<open>
  C4, at a concrete input. The hermit has one hit point and last ate 40 ticks before the
  tick that now begins. \<open>tick\<close> returns without error: the hunger pass makes the hermit
  starve, the starvation damage is handled within the call and brings the hit points to
  0, and the \<open>npc_died\<close> follow-up, stamped with the current tick, is still in the queue.
  The hermit has 0 hit points and no \<open>dead\<close> tag when \<open>tick\<close> returns.
\<close>

theorem tick_leaves_starved_agent_untagged:
  "simulator_tick dec_int tape_randint hermit_sim =
     (None,
      hermit_sim\<lparr>game_tick := 40,
        world := hermit_world\<lparr>npcs :=
          [(''npc_hermit'', (mk_npc ''npc_hermit'' [] 0 [])\<lparr>hunger_stage := ''starving''\<rparr>)]\<rparr>,
        event_queue := [mk_event ''npc_died'' 40 ''npc_hermit'' [''hut''] []]\<rparr>)
   \<and> \<not> is_dead ((mk_npc ''npc_hermit'' [] 0 [])\<lparr>hunger_stage := ''starving''\<rparr>)"
  by (simp add: simulator_tick_def hermit_sim_def hermit_world_def update_hunger_def is_dead_def
      starvation_event_def STARVING_THRESHOLD_def HUNGRY_THRESHOLD_def handle_event_def
      run_handler_def narrate_only_def handle_damage_applied_def apply_event_def
      apply_damage_applied_def num_of_jval_def npc_died_event_def world_simps perception_simps)

text \<open>The queued follow-up is handled by the next call: the second tick tags the hermit.\<close>

lemma second_tick_tags_hermit:
  "map (\<lambda>(k, n). (k, hp n, dict_get (tags n) ''dynamic'' []))
     (npcs (world (snd (simulator_tick dec_int tape_randint
        (snd (simulator_tick dec_int tape_randint hermit_sim)))))) =
   [(''npc_hermit'', 0, [''dead''])]"
  by (simp add: simulator_tick_def hermit_sim_def hermit_world_def update_hunger_def is_dead_def
      starvation_event_def STARVING_THRESHOLD_def HUNGRY_THRESHOLD_def handle_event_def
      run_handler_def narrate_only_def handle_damage_applied_def handle_world_event_def apply_event_def
      apply_damage_applied_def apply_npc_died_def add_dead_tag_def equipped_items_def clear_slots_def
      num_of_jval_def npc_died_event_def world_simps perception_simps)
section \<open>Hunger: the rule and its boundaries\<close>

lemma update_hunger_loop_spec:
  "update_hunger_loop t ns evs =
     (map (\<lambda>(k, n). (k, spec_hunger_npc t n)) ns,
      evs @ concat (map (\<lambda>(k, n). spec_hunger_events t n) ns))"
proof (induction ns arbitrary: evs)
  case Nil
  show ?case by simp
next
  case (Cons p ns)
  obtain k n where p: "p = (k, n)" by (cases p)
  show ?case
    unfolding p
    by (simp add: Cons.IH spec_hunger_npc_def spec_hunger_events_def spec_hunger_stage_def
        starvation_event_def STARVING_THRESHOLD_def HUNGRY_THRESHOLD_def Let_def)
qed

text \<open>
  C5. \<open>update_hunger\<close> leaves dead agents alone and gives every other agent the stage of
  \<open>\<Delta> = current_tick - last_meal_tick\<close>: starving from 40 on, hungry from 20 to 39,
  sated below 20. The events returned are, in agent order, exactly one
  \<open>damage_applied\<close> of amount 1 and type starvation against the agent itself for each
  starving agent, and nothing for the others.
\<close>

theorem update_hunger_spec:
  "update_hunger w t =
     (concat (map (\<lambda>(k, n). spec_hunger_events t n) (npcs w)),
      w\<lparr>npcs := map (\<lambda>(k, n). (k, spec_hunger_npc t n)) (npcs w)\<rparr>)"
  by (simp add: update_hunger_def update_hunger_loop_spec)

theorem update_hunger_boundaries:
  "update_hunger hunger_world 100 =
     ([\<lparr>event_type = ''damage_applied'', tick = 100, actor_id = ''a40'', target_ids = [''a40''],
        payload = [(''amount'', JInt 1), (''damage_type'', JStr ''starvation'')]\<rparr>],
      hunger_world\<lparr>npcs :=
        [(''a19'', (fed_at ''a19'' 81)\<lparr>hunger_stage := ''sated''\<rparr>),
         (''a20'', (fed_at ''a20'' 80)\<lparr>hunger_stage := ''hungry''\<rparr>),
         (''a39'', (fed_at ''a39'' 61)\<lparr>hunger_stage := ''hungry''\<rparr>),
         (''a40'', (fed_at ''a40'' 60)\<lparr>hunger_stage := ''starving''\<rparr>),
         (''gone'', (fed_at ''gone'' 0)\<lparr>tags := [(''inherent'', []), (''dynamic'', [''dead''])]\<rparr>)]\<rparr>)"
  using update_hunger_spec [of hunger_world 100]
  by (simp add: hunger_world_def fed_at_def mk_npc_def spec_hunger_events_def spec_hunger_npc_def
      spec_hunger_stage_def is_dead_def dict_get_def)

section \<open>Moving through edges\<close>

lemma pget_update_same: "pget (AList.update k v p) k = v"
  by (simp add: pget_def dict_get_def update_conv')

lemma normalize_move_target:
  "pget p ''target_location'' = JStr t \<Longrightarrow> t \<noteq> [] \<Longrightarrow>
   pget (normalize_params (Some ''move'') p) ''target_location'' = JStr t"
  by (simp add: normalize_params_def normalize_location_def por_def truthy_def is_str_def
      pget_update_same Let_def)

lemma move_validate_closed:
  assumes "pget p ''target_location'' = JStr t"
    and "find_npc_location w (npc_id actor) = Some cur"
    and "map_of (locations_state w) cur = Some here"
    and "map_of (connections_state here) t = Some conn"
    and "map_of conn ''status'' = Some ''closed''"
  shows "move_validate_intent p w actor = Inr False"
  using assms
  by (simp add: move_validate_intent_def truthy_def as_key_def truthy_id_def get_location_state_def
      edge_open_def dict_get_def Let_def)

lemma move_validate_open:
  assumes "move_validate_intent p w actor = Inr True"
  shows "\<exists>t cur here. pget p ''target_location'' = JStr t \<and> t \<noteq> [] \<and>
           map_of (locations_state w) t \<noteq> None \<and>
           find_npc_location w (npc_id actor) = Some cur \<and>
           map_of (locations_state w) cur = Some here \<and>
           map_of (connections_state here) t \<noteq> None \<and> edge_open here t"
  using assms
  by (auto simp add: move_validate_intent_def truthy_def as_key_def truthy_id_def
      get_location_state_def Let_def split: if_splits jval.splits option.splits)

text \<open>
  C6, as the code has it. The claim says that for every actor a move towards a closed
  dynamic neighbour fails with the invalid-intent error. The busy check comes before the
  validation of the intent: the guard, busy until tick 5, asks at tick 0 to move to the
  tavern behind the closed edge and is refused as busy. The state is unchanged.
\<close>

theorem busy_actor_closed_edge:
  "process_command dec_int busy_sim ''npc_guard'' (move_to ''tavern'') =
     (Some (ValueError ''Actor is busy''), busy_sim) \<and>
   ValueError ''Actor is busy'' \<noteq> InvalidIntent \<and>
   find_npc_location (world busy_sim) ''npc_guard'' = Some ''town_square'' \<and>
   map_of (connections_state (the (map_of (locations_state (world busy_sim)) ''town_square''))) ''tavern''
     = Some [(''status'', ''closed''), (''direction'', ''east'')]"
  by (simp add: process_command_def busy_sim_def demo_sim_def demo_world_def move_to_def
      ActorBusy_def InvalidIntent_def world_simps)

lemma process_command_busy:
  assumes "cmd_tool command = Some t" and "map_of (tools sim) t = Some tool_v"
    and "map_of (npcs (world sim)) a = Some actor"
    and "next_available_tick actor > game_tick sim"
  shows "process_command py_int sim a command = (Some ActorBusy, sim)"
  using assms by (simp add: process_command_def get_npc_def Let_def)

text \<open>
  C6 (amended). With the move tool registered as \<open>move\<close> and a known actor: a busy actor
  (\<open>next_available_tick\<close> after the current tick) is refused as busy, whatever the target,
  and the simulator is unchanged. For an actor that is not busy, a move command whose
  \<open>target_location\<close> is a dynamic neighbour of the actor's current location with edge
  status \<open>closed\<close> fails with the invalid-intent error and leaves the simulator, and so the
  world, the queue and the availability of the actor, as it was. A move command succeeds
  only when the actor is not busy and the target, after the normalisation of the parameter
  aliases, is a dynamic neighbour of the actor's current location whose edge is open (a
  missing status counts as open), in which case one move event is queued and the actor is
  busy for the time cost of the tool.
\<close>

theorem move_needs_open_edge:
  assumes tool: "map_of (tools sim) ''move'' = Some (MoveTool tc)"
    and actor: "map_of (npcs (world sim)) a = Some actor"
    and cmd: "cmd_tool command = Some ''move''"
  shows "(next_available_tick actor > game_tick sim \<longrightarrow>
            process_command py_int sim a command = (Some ActorBusy, sim))
       \<and> (next_available_tick actor \<le> game_tick sim \<longrightarrow>
           (\<forall>t cur here conn.
              pget (params_of command) ''target_location'' = JStr t \<and> t \<noteq> [] \<and>
              find_npc_location (world sim) (npc_id actor) = Some cur \<and>
              map_of (locations_state (world sim)) cur = Some here \<and>
              map_of (connections_state here) t = Some conn \<and>
              map_of conn ''status'' = Some ''closed''
              \<longrightarrow> process_command py_int sim a command = (Some InvalidIntent, sim)))
       \<and> (\<forall>sim'. process_command py_int sim a command = (None, sim') \<longrightarrow>
            next_available_tick actor \<le> game_tick sim \<and>
            (\<exists>t cur here.
               pget (normalize_params (Some ''move'') (params_of command)) ''target_location'' = JStr t \<and>
               find_npc_location (world sim) (npc_id actor) = Some cur \<and>
               map_of (locations_state (world sim)) cur = Some here \<and>
               map_of (connections_state here) t \<noteq> None \<and> edge_open here t \<and>
               sim' = sim\<lparr>event_queue := event_queue sim @
                            [\<lparr>event_type = ''move'', tick = game_tick sim, actor_id = npc_id actor,
                              target_ids = [t], payload = [(''to_location_id'', JStr t)]\<rparr>],
                          world := set_npc (world sim) a
                            (actor\<lparr>next_available_tick := game_tick sim + tc\<rparr>)\<rparr>))"
proof -
  let ?p = "normalize_params (Some ''move'') (params_of command)"
  have busy: "process_command py_int sim a command = (Some ActorBusy, sim)"
    if "next_available_tick actor > game_tick sim"
    using process_command_busy [OF cmd tool actor that] .
  have closed: "process_command py_int sim a command = (Some InvalidIntent, sim)"
    if idle: "next_available_tick actor \<le> game_tick sim"
      and h: "pget (params_of command) ''target_location'' = JStr t \<and> t \<noteq> [] \<and>
            find_npc_location (world sim) (npc_id actor) = Some cur \<and>
            map_of (locations_state (world sim)) cur = Some here \<and>
            map_of (connections_state here) t = Some conn \<and>
            map_of conn ''status'' = Some ''closed''"
    for t cur here conn
  proof -
    from h have "pget ?p ''target_location'' = JStr t"
      by (simp add: normalize_move_target)
    with h have "move_validate_intent ?p (world sim) actor = Inr False"
      by (intro move_validate_closed) auto
    then show ?thesis
      using tool actor idle cmd
      by (simp add: process_command_def get_npc_def MoveTool_def Let_def)
  qed
  have moved: "next_available_tick actor \<le> game_tick sim \<and>
            (\<exists>t cur here.
               pget ?p ''target_location'' = JStr t \<and>
               find_npc_location (world sim) (npc_id actor) = Some cur \<and>
               map_of (locations_state (world sim)) cur = Some here \<and>
               map_of (connections_state here) t \<noteq> None \<and> edge_open here t \<and>
               sim' = sim\<lparr>event_queue := event_queue sim @
                            [\<lparr>event_type = ''move'', tick = game_tick sim, actor_id = npc_id actor,
                              target_ids = [t], payload = [(''to_location_id'', JStr t)]\<rparr>],
                          world := set_npc (world sim) a
                            (actor\<lparr>next_available_tick := game_tick sim + tc\<rparr>)\<rparr>)"
    if ok: "process_command py_int sim a command = (None, sim')" for sim'
  proof -
    have idle: "next_available_tick actor \<le> game_tick sim"
    proof (rule ccontr)
      assume "\<not> next_available_tick actor \<le> game_tick sim"
      then have "next_available_tick actor > game_tick sim" by simp
      from busy [OF this] ok show False by simp
    qed
    from ok tool actor idle cmd have v: "move_validate_intent ?p (world sim) actor = Inr True"
      by (auto simp add: process_command_def get_npc_def MoveTool_def Let_def
          split: sum.splits if_splits)
    from move_validate_open [OF v] obtain t cur here where
      t: "pget ?p ''target_location'' = JStr t" "t \<noteq> []"
        "find_npc_location (world sim) (npc_id actor) = Some cur"
        "map_of (locations_state (world sim)) cur = Some here"
        "map_of (connections_state here) t \<noteq> None" "edge_open here t"
      by blast
    from t(1) have gen: "move_generate_events ?p (world sim) actor (game_tick sim) =
        Inr [\<lparr>event_type = ''move'', tick = game_tick sim, actor_id = npc_id actor,
              target_ids = [t], payload = [(''to_location_id'', JStr t)]\<rparr>]"
      by (auto simp add: move_generate_events_def pget_def dict_get_def split: option.splits)
    have "sim' = sim\<lparr>event_queue := event_queue sim @
                            [\<lparr>event_type = ''move'', tick = game_tick sim, actor_id = npc_id actor,
                              target_ids = [t], payload = [(''to_location_id'', JStr t)]\<rparr>],
                          world := set_npc (world sim) a
                            (actor\<lparr>next_available_tick := game_tick sim + tc\<rparr>)\<rparr>"
      using ok tool actor idle cmd v gen
      by (simp add: process_command_def get_npc_def MoveTool_def Let_def effective_time_cost_def)
    with t idle show ?thesis by blast
  qed
  show ?thesis
    using busy closed moved by blast
qed

theorem move_needs_open_edge_witness:
  "process_command dec_int demo_sim ''npc_guard'' (move_to ''tavern'') = (Some InvalidIntent, demo_sim) \<and>
   process_command dec_int busy_sim ''npc_guard'' (move_to ''market_square'') = (Some ActorBusy, busy_sim) \<and>
   (\<exists>sim'. process_command dec_int demo_sim ''npc_guard'' (move_to ''market_square'') = (None, sim') \<and>
           event_queue sim' = [mk_event ''move'' 0 ''npc_guard'' [''market_square'']
                                 [(''to_location_id'', JStr ''market_square'')]])"
proof -
  let ?guard = "mk_npc ''npc_guard'' [''sword_1'', ''apple_1''] 10 []"
  have tool: "map_of (tools demo_sim) ''move'' = Some (MoveTool 5)"
    by (simp add: demo_sim_def)
  have actor: "map_of (npcs (world demo_sim)) ''npc_guard'' = Some ?guard"
    by (simp add: demo_sim_def demo_world_def)
  have idle: "next_available_tick ?guard \<le> game_tick demo_sim"
    by (simp add: demo_sim_def mk_npc_def)
  have cmd: "cmd_tool (move_to ''tavern'') = Some ''move''" "cmd_tool (move_to ''market_square'') = Some ''move''"
    by (simp_all add: move_to_def)
  obtain here conn where
    p: "pget (params_of (move_to ''tavern'')) ''target_location'' = JStr ''tavern''" "''tavern'' \<noteq> []"
    and cur: "find_npc_location (world demo_sim) (npc_id ?guard) = Some ''town_square''"
    and here: "map_of (locations_state (world demo_sim)) ''town_square'' = Some here"
    and conn: "map_of (connections_state here) ''tavern'' = Some conn"
    and closed: "map_of conn ''status'' = Some ''closed''"
    by (simp add: move_to_def params_of_def pget_def demo_sim_def demo_world_def world_simps)
  from move_needs_open_edge [OF tool actor cmd(1), of dec_int] idle p cur here conn closed
  have c1: "process_command dec_int demo_sim ''npc_guard'' (move_to ''tavern'') = (Some InvalidIntent, demo_sim)"
    by blast
  have btool: "map_of (tools busy_sim) ''move'' = Some (MoveTool 5)"
    by (simp add: busy_sim_def demo_sim_def)
  have bactor: "map_of (npcs (world busy_sim)) ''npc_guard'' = Some (?guard\<lparr>next_available_tick := 5\<rparr>)"
    by (simp add: busy_sim_def demo_sim_def demo_world_def set_npc_def)
  have late: "next_available_tick (?guard\<lparr>next_available_tick := 5\<rparr>) > game_tick busy_sim"
    by (simp add: busy_sim_def demo_sim_def)
  from move_needs_open_edge [OF btool bactor cmd(2), of dec_int] late
  have c2: "process_command dec_int busy_sim ''npc_guard'' (move_to ''market_square'') = (Some ActorBusy, busy_sim)"
    by blast
  have run: "fst (process_command dec_int demo_sim ''npc_guard'' (move_to ''market_square'')) = None"
    by (simp add: process_command_def demo_sim_def demo_world_def move_to_def params_of_def
        normalize_params_def normalize_location_def por_def pget_def truthy_def is_str_def
        MoveTool_def move_validate_intent_def move_generate_events_def as_key_def edge_open_def
        effective_time_cost_def update_conv' world_simps)
  then obtain sim' where ok: "process_command dec_int demo_sim ''npc_guard'' (move_to ''market_square'') = (None, sim')"
    by (cases "process_command dec_int demo_sim ''npc_guard'' (move_to ''market_square'')") simp
  from move_needs_open_edge [OF tool actor cmd(2), of dec_int] ok
  have "event_queue sim' = [mk_event ''move'' 0 ''npc_guard'' [''market_square'']
                                 [(''to_location_id'', JStr ''market_square'')]]"
    by (auto simp add: move_to_def params_of_def normalize_params_def normalize_location_def por_def
        pget_def truthy_def is_str_def update_conv' dict_get_def demo_sim_def mk_npc_def mk_event_def)
  with c1 c2 ok show ?thesis by blast
qed

section \<open>Attack resolution\<close>











section \<open>The perception entry\<close>

text \<open>
  C8, as the code has it. The claim says that the entry carries the \<open>target_ids\<close> of the
  event. The guard grabs the rock on the town square; the grab event names the rock in
  \<open>target_ids\<close>, and the entry appended to the short-term memory of the sample agent has
  an empty \<open>target_ids\<close>: the projection does not pass the field on, and its docstring
  calls the stripping intentional.
\<close>

theorem perception_omits_target_ids:
  "target_ids grab_rock = [''rock_1''] \<and>
   fst (handle_event dec_int tape_randint demo_sim grab_rock) = None \<and>
   map_of (map (\<lambda>(k, n). (k, short_term_memory n))
             (npcs (world (snd (handle_event dec_int tape_randint demo_sim grab_rock))))) ''npc_sample''
     = Some [\<lparr>pe_event_type = ''grab'', pe_tick = 0, pe_actor_id = Some ''npc_guard'',
              pe_target_ids = [], pe_location_id = Some ''town_square'', pe_payload = []\<rparr>]"
  by (simp add: handle_event_def run_handler_def narrate_only_def handle_world_event_def
      apply_event_def apply_grab_def demo_sim_def demo_world_def grab_rock_def
      world_simps perception_simps)

text \<open>
  C8 (amended). For every perceived event (any type but \<open>describe_location\<close> and \<open>wait\<close>,
  with a primary location), every recipient that is a known agent has, after
  \<open>record_perception\<close>, as the newest entry of its short-term memory the projection that
  carries the type, the tick and the actor of the event, the primary location and the
  payload of the event, and an empty \<open>target_ids\<close>, whatever the \<open>target_ids\<close> of the event.
\<close>

theorem perception_entry_fields:
  assumes "event_type ev \<noteq> ''describe_location''" "event_type ev \<noteq> ''wait''"
    and "primary_location w ev = Some l" "l \<noteq> []"
    and "a \<in> perception_recipients w ev l"
    and "map_of (npcs w) a = Some n"
  shows "\<exists>n'. map_of (npcs (record_perception b w ev)) a = Some n' \<and>
           short_term_memory n' \<noteq> [] \<and>
           last (short_term_memory n') =
             \<lparr>pe_event_type = event_type ev, pe_tick = tick ev, pe_actor_id = Some (actor_id ev),
              pe_target_ids = [], pe_location_id = Some l, pe_payload = payload ev\<rparr>"
  using record_perception_entry [OF assms, of b]
  by (auto simp add: make_perception_from_event_def)

theorem perception_entry_fields_witness:
  "\<exists>n'. map_of (npcs (record_perception 30 demo_world scream_help)) ''npc_bard'' = Some n' \<and>
         last (short_term_memory n') =
           \<lparr>pe_event_type = ''scream'', pe_tick = 0, pe_actor_id = Some ''npc_guard'',
            pe_target_ids = [], pe_location_id = Some ''town_square'',
            pe_payload = [(''content'', JStr ''help'')]\<rparr>"
proof -
  have h1: "event_type scream_help \<noteq> ''describe_location''" "event_type scream_help \<noteq> ''wait''"
    by (simp_all add: scream_help_def mk_event_def)
  have h2: "primary_location demo_world scream_help = Some ''town_square''" "''town_square'' \<noteq> []"
    by (simp_all add: primary_location_def scream_help_def mk_event_def find_npc_location_def
        demo_world_def)
  have h3: "''npc_bard'' \<in> perception_recipients demo_world scream_help ''town_square''"
    by (simp add: demo_world_def scream_help_def world_simps perception_simps)
  have h4: "map_of (npcs demo_world) ''npc_bard'' = Some (mk_npc ''npc_bard'' [] 10 [])"
    by (simp add: demo_world_def)
  from perception_entry_fields [OF h1 h2 h3 h4, of 30]
  show ?thesis by (auto simp add: scream_help_def mk_event_def)
qed

section \<open>Commands of unknown actors\<close>

text \<open>
  C9. For an actor id that is not a known agent, \<open>process_command\<close> raises the lookup
  error for that id whatever the command is, so also when the tool of the command is not
  registered: the actor is looked up before a missing tool is reported. The simulator
  state is unchanged.
\<close>

theorem process_command_unknown_actor:
  "map_of (npcs (world sim)) a = None \<Longrightarrow>
   process_command py_int sim a command = (Some (KeyError a), sim)"
  by (simp add: process_command_def get_npc_def Let_def)

theorem process_command_unknown_actor_witness:
  "map_of (tools demo_sim) ''fly'' = None \<and>
   process_command dec_int demo_sim ''npc_nobody'' \<lparr>cmd_tool = Some ''fly'', cmd_params = None\<rparr>
     = (Some (KeyError ''npc_nobody''), demo_sim) \<and>
   process_command dec_int demo_sim ''npc_nobody'' (move_to ''market_square'')
     = (Some (KeyError ''npc_nobody''), demo_sim)"
proof -
  have h: "map_of (npcs (world demo_sim)) ''npc_nobody'' = None"
    by (simp add: demo_sim_def demo_world_def)
  have "map_of (tools demo_sim) ''fly'' = None"
    by (simp add: demo_sim_def)
  with process_command_unknown_actor [OF h, of dec_int] show ?thesis by simp
qed

section \<open>Death of an agent that is in no location\<close>

lemma add_dead_tag_dead: "is_dead (add_dead_tag npc)"
  by (simp add: add_dead_tag_def is_dead_def dict_get_def update_conv')

lemma add_dead_tag_frame:
  "inventory (add_dead_tag npc) = inventory npc" "slots (add_dead_tag npc) = slots npc"
  by (simp_all add: add_dead_tag_def)

text \<open>
  C10. For a known agent that no location lists among its occupants, applying an
  \<open>npc_died\<close> event for it changes nothing but that agent's record: \<open>dead\<close> is among
  its dynamic tags afterwards, and its inventory and equipment slots are as before.
\<close>

theorem npc_died_unplaced:
  assumes "event_type ev = ''npc_died''"
    and "map_of (npcs w) (actor_id ev) = Some npc"
    and "\<forall>(l, st) \<in> set (locations_state w). npc_id npc \<notin> set (occupants st)"
  shows "\<exists>npc'. apply_event w ev = (None, w\<lparr>npcs := AList.update (actor_id ev) npc' (npcs w)\<rparr>)
           \<and> map_of (npcs (snd (apply_event w ev))) (actor_id ev) = Some npc'
           \<and> ''dead'' \<in> set (dict_get (tags npc') ''dynamic'' [])
           \<and> inventory npc' = inventory npc \<and> slots npc' = slots npc"
proof -
  have nowhere: "find_npc_location w (npc_id npc) = None"
    using assms(3) by (simp add: find_npc_location_def find_in_locations_None)
  have run: "apply_event w ev = (None, set_npc w (actor_id ev) (add_dead_tag npc))"
    using assms(1,2) nowhere
    by (simp add: apply_event_def apply_npc_died_def truthy_id_def)
  show ?thesis
    using run add_dead_tag_dead [of npc] add_dead_tag_frame [of npc]
    by (intro exI [of _ "add_dead_tag npc"]) (simp add: set_npc_def is_dead_def map_of_update_same)
qed

theorem npc_died_unplaced_witness:
  "\<exists>npc'. apply_event ghost_world (mk_event ''npc_died'' 3 ''npc_ghost'' [] []) =
            (None, ghost_world\<lparr>npcs := AList.update ''npc_ghost'' npc' (npcs ghost_world)\<rparr>) \<and>
          ''dead'' \<in> set (dict_get (tags npc') ''dynamic'' []) \<and>
          inventory npc' = [''coin_1''] \<and> slots npc' = [(''main_hand'', Some ''dagger_1'')]"
proof -
  let ?ev = "mk_event ''npc_died'' 3 ''npc_ghost'' [] []"
  have h1: "event_type ?ev = ''npc_died''"
    by (simp add: mk_event_def)
  have h2: "map_of (npcs ghost_world) (actor_id ?ev) = Some npc_ghost"
    by (simp add: ghost_world_def demo_world_def mk_event_def)
  have h3: "\<forall>(l, st) \<in> set (locations_state ghost_world). npc_id npc_ghost \<notin> set (occupants st)"
    by (simp add: ghost_world_def demo_world_def npc_ghost_def mk_npc_def)
  from npc_died_unplaced [OF h1 h2 h3]
  show ?thesis by (auto simp add: mk_event_def npc_ghost_def mk_npc_def)
qed

end
